theory Spec2Isabelle
  imports Complex_Main "HOL-Library.Word" "HOL-Library.Multiset"
begin

section \<open>Values crossing the binding\<close>

text \<open>
  The methods of \<open>VectorTile\<close> receive their arguments as script values. A number is a
  real here (the not-a-number and the infinite doubles are outside the model), a byte
  buffer is its list of bytes.
\<close>

type_synonym bytes = "8 word list"

datatype js_error = Error string | TypeError string

text \<open>
  \<open>Int32Value\<close> of a number: the fraction is dropped towards zero and the integer is
  reduced to 32 bits; \<open>sint\<close> reads the result as the C++ \<open>int\<close>.
\<close>

definition Int32Value :: "real \<Rightarrow> 32 word" where
  "Int32Value d = word_of_int (if d < 0 then \<lceil>d\<rceil> else \<lfloor>d\<rfloor>)"

section \<open>Geometries, features and layers\<close>

text \<open>
  The decoded geometry variant of mapnik, over doubles. A ring and a line are lists of
  points; the first ring of a polygon is its exterior ring.
\<close>

type_synonym coord2d = "real \<times> real"

datatype geometry =
    geometry_empty
  | point coord2d
  | multi_point "coord2d list"
  | line_string "coord2d list"
  | multi_line_string "coord2d list list"
  | polygon "coord2d list list"
  | multi_polygon "coord2d list list list"
  | geometry_collection "geometry list"

text \<open>
  A feature as the layer's datasource hands it out: its id and its geometry in the
  tile's metric frame.
\<close>

record feature =
  fid :: int
  geom :: geometry

text \<open>
  A feature message as the validity check reads it from the layer's bytes: the id,
  the type and the geometry field when present. \<open>msg_geometry\<close> holds what
  \<open>decode_geometry\<close> returns for the feature's command stream and type.
\<close>

record feature_msg =
  msg_id :: "int option"
  msg_type :: "int option"
  msg_geometry :: "geometry option"

text \<open>
  A layer is represented by what the readers of the source obtain from its bytes: the
  name, the features the datasource decodes and the raw feature messages. Layers whose
  bytes those readers reject with an exception are not represented.
\<close>

record layer =
  l_name :: string
  l_features :: "feature list"
  l_feature_msgs :: "feature_msg list"

section \<open>The tile\<close>

text \<open>
  \<open>merc_tile\<close> as this file uses it: the address, \<open>tile_size\<close> (a \<open>std::uint32_t\<close>),
  \<open>buffer_size\<close> (a \<open>std::int32_t\<close>, read with \<open>sint\<close>) and the layers.
\<close>

record merc_tile =
  tile_x :: nat
  tile_y :: nat
  tile_z :: nat
  tile_size :: "32 word"
  buffer_size :: "32 word"
  layers :: "layer list"

datatype js_value =
    JUndefined
  | JNull
  | JNumber real
  | JBoolean bool
  | JString string
  | JArray "js_value list"
  | JObject "(string \<times> js_value) list"
  | JFunction
  | JBuffer bytes
  | JVectorTile "merc_tile"

text \<open>\<open>info[i]\<close>: an argument that was not passed reads as undefined.\<close>

definition arg :: "js_value list \<Rightarrow> nat \<Rightarrow> js_value" where
  "arg info i = (if i < length info then info ! i else JUndefined)"

fun IsNumber :: "js_value \<Rightarrow> bool" where
  "IsNumber (JNumber _) = True"
| "IsNumber _ = False"

fun IsBoolean :: "js_value \<Rightarrow> bool" where
  "IsBoolean (JBoolean _) = True"
| "IsBoolean _ = False"

fun IsString :: "js_value \<Rightarrow> bool" where
  "IsString (JString _) = True"
| "IsString _ = False"

fun IsArray :: "js_value \<Rightarrow> bool" where
  "IsArray (JArray _) = True"
| "IsArray _ = False"

fun IsFunction :: "js_value \<Rightarrow> bool" where
  "IsFunction JFunction = True"
| "IsFunction _ = False"

fun IsBuffer :: "js_value \<Rightarrow> bool" where
  "IsBuffer (JBuffer _) = True"
| "IsBuffer _ = False"

text \<open>Arrays, functions, buffers and wrapped tiles are objects too.\<close>

fun IsObject :: "js_value \<Rightarrow> bool" where
  "IsObject (JObject _) = True"
| "IsObject (JArray _) = True"
| "IsObject JFunction = True"
| "IsObject (JBuffer _) = True"
| "IsObject (JVectorTile _) = True"
| "IsObject _ = False"

text \<open>
  \<open>options.Has(key)\<close> and \<open>options.Get(key)\<close> in one: \<open>None\<close> when the object has no
  such property. Only plain objects carry option properties in this model.
\<close>

fun Get :: "js_value \<Rightarrow> string \<Rightarrow> js_value option" where
  "Get (JObject kvs) k = map_of kvs k"
| "Get _ k = None"

fun NumberValue :: "js_value \<Rightarrow> real" where
  "NumberValue (JNumber d) = d"
| "NumberValue _ = 0"

section \<open>Constructing a tile and setting its sizes\<close>

text \<open>
  \<open>VectorTile::New\<close> from its first length check on (the call is a construct call and
  the first argument is no external pointer). \<open>2 * buffer_size\<close> is a product of
  \<open>int\<close>s, so it is taken in 32 bits before the sum, which is taken in doubles, where
  it is exact. \<open>pow(2,z)\<close> is kept as the integer power.
\<close>

definition New_options :: "js_value list \<Rightarrow> js_error + (32 word \<times> 32 word)" where
  "New_options info =
     (if length info > 3 then
        (if \<not> IsObject (arg info 3)
         then Inl (TypeError ''optional fourth argument must be an options object'')
         else
           (case (case Get (arg info 3) ''tile_size'' of
                    None \<Rightarrow> Inr 4096
                  | Some opt \<Rightarrow>
                      if \<not> IsNumber opt
                      then Inl (TypeError ''optional arg 'tile_size' must be a number'')
                      else if sint (Int32Value (NumberValue opt)) \<le> 0
                      then Inl (TypeError ''optional arg 'tile_size' must be greater then zero'')
                      else Inr (Int32Value (NumberValue opt))) of
              Inl e \<Rightarrow> Inl e
            | Inr ts \<Rightarrow>
                (case Get (arg info 3) ''buffer_size'' of
                   None \<Rightarrow> Inr (ts, 128)
                 | Some opt \<Rightarrow>
                     if \<not> IsNumber opt
                     then Inl (TypeError ''optional arg 'buffer_size' must be a number'')
                     else Inr (ts, Int32Value (NumberValue opt)))))
      else Inr (4096, 128))"

definition New :: "js_value list \<Rightarrow> js_error + merc_tile" where
  "New info =
     (if length info < 3 then Inl (Error ''please provide a z, x, y'')
      else if \<not> IsNumber (arg info 0) \<or> \<not> IsNumber (arg info 1) \<or> \<not> IsNumber (arg info 2)
      then Inl (TypeError ''required parameters (z, x, and y) must be a integers'')
      else
        let z = sint (Int32Value (NumberValue (arg info 0)));
            x = sint (Int32Value (NumberValue (arg info 1)));
            y = sint (Int32Value (NumberValue (arg info 2)))
        in
          if z < 0 \<or> x < 0 \<or> y < 0
          then Inl (TypeError ''required parameters (z, x, and y) must be greater then or equal to zero'')
          else if x \<ge> 2 ^ nat z
          then Inl (TypeError ''required parameter x is out of range of possible values based on z value'')
          else if y \<ge> 2 ^ nat z
          then Inl (TypeError ''required parameter y is out of range of possible values based on z value'')
          else
            (case New_options info of
               Inl e \<Rightarrow> Inl e
             | Inr (ts, bs) \<Rightarrow>
                 if uint ts + sint (2 * bs) \<le> 0
                 then Inl (Error ''too large of a negative buffer for tilesize'')
                 else Inr \<lparr>tile_x = nat x, tile_y = nat y, tile_z = nat z,
                           tile_size = ts, buffer_size = bs, layers = []\<rparr>))"

text \<open>
  The property setters return the error raised, if any, and the tile as it is after the
  call. \<open>set_tile_size\<close> tests the new value alone; \<open>set_buffer_size\<close> tests the sum
  with the current tile size, in \<open>int\<close> arithmetic.
\<close>

definition set_tile_size :: "merc_tile \<Rightarrow> js_value \<Rightarrow> js_error option \<times> merc_tile" where
  "set_tile_size d v =
     (if \<not> IsNumber v then (Some (Error ''Must provide a number''), d)
      else
        let val = Int32Value (NumberValue v) in
          if sint val \<le> 0 then (Some (Error ''tile size must be greater then zero''), d)
          else (None, d\<lparr>tile_size := val\<rparr>))"

definition set_buffer_size :: "merc_tile \<Rightarrow> js_value \<Rightarrow> js_error option \<times> merc_tile" where
  "set_buffer_size d v =
     (if \<not> IsNumber v then (Some (Error ''Must provide a number''), d)
      else
        let val = Int32Value (NumberValue v) in
          if sint (tile_size d + 2 * val) \<le> 0
          then (Some (Error ''too large of a negative buffer for tilesize''), d)
          else (None, d\<lparr>buffer_size := val\<rparr>))"

text \<open>The invariant of the data model, over the integers.\<close>

definition tile_invariant :: "merc_tile \<Rightarrow> bool" where
  "tile_invariant d \<longleftrightarrow> uint (tile_size d) + 2 * sint (buffer_size d) > 0"

text \<open>The tile 0/0/0 without layers, of a given size and with a buffer of \<open>-2000\<close>.\<close>

definition narrow_buffer_tile :: "32 word \<Rightarrow> merc_tile" where
  "narrow_buffer_tile ts =
     \<lparr>tile_x = 0, tile_y = 0, tile_z = 0, tile_size = ts, buffer_size = - 2000, layers = []\<rparr>"

section \<open>Collaborators outside the repository\<close>

text \<open>
  The functions of mapnik that the query code calls are parameters of the model: the
  two directions of the reprojection between longitude/latitude and the tile's metric
  frame (\<open>None\<close> when the transform reports failure), \<open>mapnik::distance\<close>,
  \<open>mapnik::point_to_segment_distance\<close> and the crossing test \<open>mapnik::detail::pip\<close>.
\<close>

record mapnik =
  forward :: "coord2d \<Rightarrow> coord2d option"
  backward :: "coord2d \<Rightarrow> coord2d option"
  mapnik_distance :: "real \<Rightarrow> real \<Rightarrow> real \<Rightarrow> real \<Rightarrow> real"
  point_to_segment_distance :: "real \<Rightarrow> real \<Rightarrow> real \<Rightarrow> real \<Rightarrow> real \<Rightarrow> real \<Rightarrow> real"
  pip :: "real \<Rightarrow> real \<Rightarrow> real \<Rightarrow> real \<Rightarrow> real \<Rightarrow> real \<Rightarrow> bool"

text \<open>
  For the examples the parameters are set to what the library computes: the Euclidean
  distance, the distance to the nearest point of a segment and the test that the
  horizontal ray from \<open>(x, y)\<close> crosses the segment. The examples place the query in
  the tile's frame itself, so both directions of the reprojection are the identity.
\<close>

definition distance2 :: "real \<Rightarrow> real \<Rightarrow> real \<Rightarrow> real \<Rightarrow> real" where
  "distance2 x0 y0 x1 y1 = (x0 - x1) * (x0 - x1) + (y0 - y1) * (y0 - y1)"

definition euclid_distance :: "real \<Rightarrow> real \<Rightarrow> real \<Rightarrow> real \<Rightarrow> real" where
  "euclid_distance x0 y0 x1 y1 = sqrt (distance2 x0 y0 x1 y1)"

definition segment_distance :: "real \<Rightarrow> real \<Rightarrow> real \<Rightarrow> real \<Rightarrow> real \<Rightarrow> real \<Rightarrow> real" where
  "segment_distance x y ax ay bx by' =
     (let len2 = distance2 ax ay bx by' in
        if len2 < 1 / 10 ^ 14 then euclid_distance x y ax ay
        else
          let r = ((x - ax) * (bx - ax) + (y - ay) * (by' - ay)) / len2 in
            if r < 0 then euclid_distance x y ax ay
            else if r > 1 then euclid_distance x y bx by'
            else \<bar>((ay - y) * (bx - ax) - (ax - x) * (by' - ay)) / len2\<bar> * sqrt len2)"

definition ray_crosses :: "real \<Rightarrow> real \<Rightarrow> real \<Rightarrow> real \<Rightarrow> real \<Rightarrow> real \<Rightarrow> bool" where
  "ray_crosses x0 y0 x1 y1 x y \<longleftrightarrow>
     ((y1 \<le> y \<and> y < y0) \<or> (y0 \<le> y \<and> y < y1)) \<and> x < (x0 - x1) * (y - y1) / (y0 - y1) + x1"

definition planar :: mapnik where
  "planar = \<lparr>forward = Some, backward = Some, mapnik_distance = euclid_distance,
             point_to_segment_distance = segment_distance, pip = ray_crosses\<rparr>"

section \<open>Distance from a point to a geometry\<close>

record p2p_result =
  distance :: real
  x_hit :: real
  y_hit :: real

text \<open>The default constructor of \<open>p2p_result\<close>: no hit.\<close>

definition p2p_new :: p2p_result where
  "p2p_new = \<lparr>distance = -1, x_hit = 0, y_hit = 0\<rparr>"

text \<open>
  The update every multi-geometry loop of \<open>p2p_distance\<close> makes with the result of a
  part: the part wins when it is a hit and nearer than what is held.
\<close>

definition p2p_take :: "p2p_result \<Rightarrow> p2p_result \<Rightarrow> p2p_result" where
  "p2p_take p2p p2p_sub =
     (if distance p2p_sub \<ge> 0 \<and> (distance p2p < 0 \<or> distance p2p_sub < distance p2p)
      then p2p\<lparr>x_hit := x_hit p2p_sub, y_hit := y_hit p2p_sub, distance := distance p2p_sub\<rparr>
      else p2p)"

definition p2p_point :: "mapnik \<Rightarrow> real \<Rightarrow> real \<Rightarrow> coord2d \<Rightarrow> p2p_result" where
  "p2p_point E x y pt =
     \<lparr>distance = mapnik_distance E (fst pt) (snd pt) x y, x_hit = fst pt, y_hit = snd pt\<rparr>"

definition p2p_multi_point :: "mapnik \<Rightarrow> real \<Rightarrow> real \<Rightarrow> coord2d list \<Rightarrow> p2p_result" where
  "p2p_multi_point E x y pts = foldl (\<lambda>p2p pt. p2p_take p2p (p2p_point E x y pt)) p2p_new pts"

text \<open>
  The segments of a line or ring in order: \<open>(geom[i-1], geom[i])\<close> for \<open>i\<close> from 1.
\<close>

definition segments :: "coord2d list \<Rightarrow> (coord2d \<times> coord2d) list" where
  "segments pts = zip pts (tl pts)"

definition p2p_segment :: "mapnik \<Rightarrow> real \<Rightarrow> real \<Rightarrow> p2p_result \<Rightarrow> coord2d \<times> coord2d \<Rightarrow> p2p_result" where
  "p2p_segment E x y p2p seg =
     (let pt0 = fst seg; pt1 = snd seg;
          dist = point_to_segment_distance E x y (fst pt0) (snd pt0) (fst pt1) (snd pt1)
      in if dist \<ge> 0 \<and> (distance p2p < 0 \<or> dist < distance p2p)
         then p2p\<lparr>x_hit := fst pt0, y_hit := snd pt0, distance := dist\<rparr>
         else p2p)"

definition p2p_line_string :: "mapnik \<Rightarrow> real \<Rightarrow> real \<Rightarrow> coord2d list \<Rightarrow> p2p_result" where
  "p2p_line_string E x y pts =
     (if length pts > 1 then foldl (p2p_segment E x y) p2p_new (segments pts) else p2p_new)"

definition p2p_multi_line_string :: "mapnik \<Rightarrow> real \<Rightarrow> real \<Rightarrow> coord2d list list \<Rightarrow> p2p_result" where
  "p2p_multi_line_string E x y lines =
     foldl (\<lambda>p2p line. p2p_take p2p (p2p_line_string E x y line)) p2p_new lines"

text \<open>
  The inner loop of the polygon case: every segment of the ring that the ray from the
  query point crosses flips \<open>inside\<close>.
\<close>

definition ring_flips :: "mapnik \<Rightarrow> real \<Rightarrow> real \<Rightarrow> bool \<Rightarrow> coord2d list \<Rightarrow> bool" where
  "ring_flips E x y inside ring =
     foldl (\<lambda>ins seg.
              if pip E (fst (fst seg)) (snd (fst seg)) (fst (snd seg)) (snd (snd seg)) x y
              then \<not> ins else ins)
           inside (segments ring)"

text \<open>
  The loop over the rings, from ring \<open>ring_index\<close> on. A ring of fewer than four points
  ends the polygon without a hit when it is the exterior ring and is passed over
  otherwise; after the exterior ring the loop ends without a hit unless the point is
  inside.
\<close>

fun p2p_rings :: "mapnik \<Rightarrow> real \<Rightarrow> real \<Rightarrow> nat \<Rightarrow> bool \<Rightarrow> coord2d list list \<Rightarrow> p2p_result" where
  "p2p_rings E x y ring_index inside [] =
     (if inside then p2p_new\<lparr>distance := 0\<rparr> else p2p_new)"
| "p2p_rings E x y ring_index inside (ring # rest) =
     (if length ring < 4 then
        (if ring_index = 0 then p2p_new
         else p2p_rings E x y (Suc ring_index) inside rest)
      else
        let inside' = ring_flips E x y inside ring in
          if ring_index = 0 \<and> \<not> inside' then p2p_new
          else p2p_rings E x y (Suc ring_index) inside' rest)"

definition p2p_polygon :: "mapnik \<Rightarrow> real \<Rightarrow> real \<Rightarrow> coord2d list list \<Rightarrow> p2p_result" where
  "p2p_polygon E x y poly = p2p_rings E x y 0 False poly"

definition p2p_multi_polygon :: "mapnik \<Rightarrow> real \<Rightarrow> real \<Rightarrow> coord2d list list list \<Rightarrow> p2p_result" where
  "p2p_multi_polygon E x y polys =
     foldl (\<lambda>p2p poly. p2p_take p2p (p2p_polygon E x y poly)) p2p_new polys"

text \<open>The visitor \<open>p2p_distance(x,y)\<close> applied to a geometry.\<close>

fun path_to_point_distance :: "mapnik \<Rightarrow> geometry \<Rightarrow> real \<Rightarrow> real \<Rightarrow> p2p_result" where
  "path_to_point_distance E geometry_empty x y = p2p_new"
| "path_to_point_distance E (point pt) x y = p2p_point E x y pt"
| "path_to_point_distance E (multi_point pts) x y = p2p_multi_point E x y pts"
| "path_to_point_distance E (line_string pts) x y = p2p_line_string E x y pts"
| "path_to_point_distance E (multi_line_string lines) x y = p2p_multi_line_string E x y lines"
| "path_to_point_distance E (polygon poly) x y = p2p_polygon E x y poly"
| "path_to_point_distance E (multi_polygon polys) x y = p2p_multi_polygon E x y polys"
| "path_to_point_distance E (geometry_collection gs) x y =
     foldl p2p_take p2p_new (map (\<lambda>g. path_to_point_distance E g x y) gs)"


section \<open>The layer datasource\<close>

text \<open>
  \<open>mapnik::box2d\<close>: a default-constructed box holds no point yet;
  \<open>expand_to_include\<close> grows a box to hold a point, \<open>pad\<close> moves every side
  outwards, and the four-number constructor orders each pair of bounds.
\<close>

datatype box2d = box2d_default | Box real real real real

fun expand_to_include :: "box2d \<Rightarrow> coord2d \<Rightarrow> box2d" where
  "expand_to_include box2d_default pt = Box (fst pt) (snd pt) (fst pt) (snd pt)"
| "expand_to_include (Box minx miny maxx maxy) pt =
     Box (if fst pt < minx then fst pt else minx) (if snd pt < miny then snd pt else miny)
         (if fst pt > maxx then fst pt else maxx) (if snd pt > maxy then snd pt else maxy)"

fun pad :: "box2d \<Rightarrow> real \<Rightarrow> box2d" where
  "pad box2d_default padding = box2d_default"
| "pad (Box minx miny maxx maxy) padding =
     Box (minx - padding) (miny - padding) (maxx + padding) (maxy + padding)"

definition box2d_init :: "real \<Rightarrow> real \<Rightarrow> real \<Rightarrow> real \<Rightarrow> box2d" where
  "box2d_init x0 y0 x1 y1 =
     Box (if x0 < x1 then x0 else x1) (if y0 < y1 then y0 else y1)
         (if x0 < x1 then x1 else x0) (if y0 < y1 then y1 else y0)"

fun intersects :: "box2d \<Rightarrow> box2d \<Rightarrow> bool" where
  "intersects (Box minx miny maxx maxy) (Box ominx ominy omaxx omaxy) =
     (\<not> (ominx > maxx \<or> omaxx < minx \<or> ominy > maxy \<or> omaxy < miny))"
| "intersects _ _ = False"

text \<open>All the points of a geometry, and the box around them.\<close>

fun geometry_points :: "geometry \<Rightarrow> coord2d list" where
  "geometry_points geometry_empty = []"
| "geometry_points (point pt) = [pt]"
| "geometry_points (multi_point pts) = pts"
| "geometry_points (line_string pts) = pts"
| "geometry_points (multi_line_string lines) = concat lines"
| "geometry_points (polygon poly) = concat poly"
| "geometry_points (multi_polygon polys) = concat (concat polys)"
| "geometry_points (geometry_collection gs) = concat (map geometry_points gs)"

definition envelope :: "geometry \<Rightarrow> box2d" where
  "envelope g = foldl expand_to_include box2d_default (geometry_points g)"

text \<open>
  \<open>tile_datasource_pbf\<close> is the spec's bounding-box-prefiltered scan: \<open>features(q)\<close>
  hands out, in layer order, the features whose envelope meets the query box, and
  \<open>features_at_point(pt, tol)\<close> does so for the box of half-width \<open>tol\<close> around
  \<open>pt\<close>.
\<close>

definition ds_features :: "layer \<Rightarrow> box2d \<Rightarrow> feature list" where
  "ds_features l bbox = filter (\<lambda>f. intersects bbox (envelope (geom f))) (l_features l)"

definition features_at_point :: "layer \<Rightarrow> coord2d \<Rightarrow> real \<Rightarrow> feature list" where
  "features_at_point l pt tol =
     ds_features l (box2d_init (fst pt - tol) (snd pt - tol) (fst pt + tol) (snd pt + tol))"

text \<open>\<open>merc_tile::layer_reader\<close>: the first layer of that name, if any.\<close>

definition layer_reader :: "merc_tile \<Rightarrow> string \<Rightarrow> layer option" where
  "layer_reader d nm = find (\<lambda>l. l_name l = nm) (layers d)"

definition is_empty :: "merc_tile \<Rightarrow> bool" where
  "is_empty d \<longleftrightarrow> layers d = []"

section \<open>Sorting\<close>

text \<open>
  \<open>std::sort(first, last, comp)\<close> orders a range so that no element is \<open>comp\<close>-before
  an element ahead of it. It is modelled by insertion, which is one of the orders the
  library may produce when \<open>comp\<close> leaves elements tied.
\<close>

fun sort_insert :: "('a \<Rightarrow> 'a \<Rightarrow> bool) \<Rightarrow> 'a \<Rightarrow> 'a list \<Rightarrow> 'a list" where
  "sort_insert cmp a [] = [a]"
| "sort_insert cmp a (b # bs) =
     (if cmp b a then b # sort_insert cmp a bs else a # b # bs)"

definition std_sort :: "('a \<Rightarrow> 'a \<Rightarrow> bool) \<Rightarrow> 'a list \<Rightarrow> 'a list" where
  "std_sort cmp xs = foldr (sort_insert cmp) xs []"

section \<open>The single-point query\<close>

record query_result = p2p_result +
  layer :: string
  feature :: feature

text \<open>
  The loop over the feature set of one layer: the hit is transformed back for every
  feature, and a failure of that transform throws; the feature is pushed when its
  distance is not negative and within the tolerance.
\<close>

fun query_features ::
  "mapnik \<Rightarrow> real \<Rightarrow> real \<Rightarrow> real \<Rightarrow> string \<Rightarrow> feature list \<Rightarrow> query_result list
   \<Rightarrow> string + query_result list" where
  "query_features E x y tolerance nm [] arr = Inr arr"
| "query_features E x y tolerance nm (f # fs) arr =
     (let p2p = path_to_point_distance E (geom f) x y in
        case backward E (x_hit p2p, y_hit p2p) of
          None \<Rightarrow> Inl ''could not reproject lon/lat to mercator''
        | Some hit \<Rightarrow>
            if distance p2p \<ge> 0 \<and> distance p2p \<le> tolerance
            then query_features E x y tolerance nm fs
                   (arr @ [\<lparr>distance = distance p2p, x_hit = fst hit, y_hit = snd hit,
                            layer = nm, feature = f\<rparr>])
            else query_features E x y tolerance nm fs arr)"

text \<open>The loop over all the layers of the tile, taken when no layer is named.\<close>

fun query_layers ::
  "mapnik \<Rightarrow> real \<Rightarrow> real \<Rightarrow> real \<Rightarrow> layer list \<Rightarrow> query_result list
   \<Rightarrow> string + query_result list" where
  "query_layers E x y tolerance [] arr = Inr arr"
| "query_layers E x y tolerance (l # ls) arr =
     (case query_features E x y tolerance (l_name l) (features_at_point l (x, y) tolerance) arr of
        Inl e \<Rightarrow> Inl e
      | Inr arr' \<Rightarrow> query_layers E x y tolerance ls arr')"

definition query_scan ::
  "mapnik \<Rightarrow> merc_tile \<Rightarrow> real \<Rightarrow> real \<Rightarrow> real \<Rightarrow> string \<Rightarrow> string + query_result list" where
  "query_scan E d x y tolerance nm =
     (if nm \<noteq> [] then
        (case layer_reader d nm of
           Some l \<Rightarrow> query_features E x y tolerance nm (features_at_point l (x, y) tolerance) []
         | None \<Rightarrow> Inr [])
      else query_layers E x y tolerance (layers d) [])"

text \<open>
  \<open>VectorTile::_query\<close>. The lambda it hands to \<open>std::sort\<close> returns \<open>a > b\<close> for two
  \<open>query_result\<close>s. That comparison is declared with the struct in the header, which
  is not part of the source file, so it is the parameter \<open>result_greater\<close> here.
\<close>

definition query_impl ::
  "(query_result \<Rightarrow> query_result \<Rightarrow> bool) \<Rightarrow> mapnik \<Rightarrow> merc_tile \<Rightarrow> real \<Rightarrow> real \<Rightarrow> real \<Rightarrow> string
   \<Rightarrow> string + query_result list" where
  "query_impl result_greater E d lon lat tolerance nm =
     (if is_empty d then Inr []
      else
        case forward E (lon, lat) of
          None \<Rightarrow> Inl ''could not reproject lon/lat to mercator''
        | Some pt \<Rightarrow>
            (case query_scan E d (fst pt) (snd pt) tolerance nm of
               Inl e \<Rightarrow> Inl e
             | Inr arr \<Rightarrow> Inr (std_sort result_greater arr)))"


section \<open>The batch query\<close>

record query_hit =
  hit_distance :: real
  feature_id :: nat

text \<open>
  \<open>queryMany_result\<close>: two \<open>std::map\<close>s keyed by unsigned numbers, the features by
  the id the query gives them and the hits by the index of the query point.
\<close>

record queryMany_result =
  features :: "nat \<rightharpoonup> query_result"
  hits :: "nat \<rightharpoonup> query_hit list"

definition queryManySort :: "query_hit \<Rightarrow> query_hit \<Rightarrow> bool" where
  "queryManySort a b \<longleftrightarrow> hit_distance a < hit_distance b"

text \<open>\<open>std::map::insert\<close> keeps the value a key already has.\<close>

definition map_insert :: "('k \<rightharpoonup> 'v) \<Rightarrow> 'k \<Rightarrow> 'v \<Rightarrow> ('k \<rightharpoonup> 'v)" where
  "map_insert m k v = (case m k of None \<Rightarrow> m(k \<mapsto> v) | Some _ \<Rightarrow> m)"

text \<open>
  The state of the loop over the candidate features: the next id \<open>idx\<close>, the flag
  \<open>has_hit\<close> of the current feature and the two maps.
\<close>

record many_state =
  idx :: nat
  has_hit :: bool
  st_features :: "nat \<rightharpoonup> query_result"
  st_hits :: "nat \<rightharpoonup> query_hit list"

text \<open>The loop over the query points for one feature, from point index \<open>p\<close> on.\<close>

fun many_points ::
  "mapnik \<Rightarrow> real \<Rightarrow> string \<Rightarrow> feature \<Rightarrow> nat \<Rightarrow> coord2d list \<Rightarrow> many_state \<Rightarrow> many_state" where
  "many_points E tolerance nm f p [] st = st"
| "many_points E tolerance nm f p (pt # pts) st =
     (let p2p = path_to_point_distance E (geom f) (fst pt) (snd pt) in
        if distance p2p \<ge> 0 \<and> distance p2p \<le> tolerance
        then
          let res = \<lparr>distance = 0, x_hit = 0, y_hit = 0, layer = nm, feature = f\<rparr>;
              hit = \<lparr>hit_distance = distance p2p, feature_id = idx st\<rparr>
          in many_points E tolerance nm f (Suc p) pts
               (st\<lparr>has_hit := True,
                   st_features := map_insert (st_features st) (idx st) res,
                   st_hits := (case st_hits st p of
                                 None \<Rightarrow> (st_hits st)(p \<mapsto> [hit])
                               | Some pointHits \<Rightarrow> (st_hits st)(p \<mapsto> pointHits @ [hit]))\<rparr>)
        else many_points E tolerance nm f (Suc p) pts st)"

text \<open>The loop over the feature set: the id moves on after a feature that had a hit.\<close>

fun many_features ::
  "mapnik \<Rightarrow> real \<Rightarrow> string \<Rightarrow> coord2d list \<Rightarrow> feature list \<Rightarrow> many_state \<Rightarrow> many_state" where
  "many_features E tolerance nm points [] st = st"
| "many_features E tolerance nm points (f # fs) st =
     (let st' = many_points E tolerance nm f 0 points (st\<lparr>has_hit := False\<rparr>) in
        many_features E tolerance nm points fs
          (if has_hit st' then st'\<lparr>idx := Suc (idx st')\<rparr> else st'))"

text \<open>The query points are reprojected in order; the first failure throws.\<close>

fun reproject_query :: "mapnik \<Rightarrow> coord2d list \<Rightarrow> string + coord2d list" where
  "reproject_query E [] = Inr []"
| "reproject_query E (q # qs) =
     (case forward E q of
        None \<Rightarrow> Inl ''could not reproject lon/lat to mercator''
      | Some pt \<Rightarrow> (case reproject_query E qs of Inl e \<Rightarrow> Inl e | Inr pts \<Rightarrow> Inr (pt # pts)))"

text \<open>
  The box handed to the datasource: grown from the default box over the reprojected
  points, then padded.
\<close>

definition query_bbox :: "coord2d list \<Rightarrow> real \<Rightarrow> box2d" where
  "query_bbox points tolerance = pad (foldl expand_to_include box2d_default points) tolerance"

text \<open>
  The part of \<open>_queryMany\<close> that follows the call of the datasource: the loop over the
  feature set, then the sort of each group of hits by distance.
\<close>

definition many_collect ::
  "mapnik \<Rightarrow> real \<Rightarrow> string \<Rightarrow> coord2d list \<Rightarrow> feature list \<Rightarrow> queryMany_result" where
  "many_collect E tolerance nm points fs =
     (let st = many_features E tolerance nm points fs
                 \<lparr>idx = 0, has_hit = False, st_features = Map.empty, st_hits = Map.empty\<rparr>
      in \<lparr>features = st_features st,
          hits = (\<lambda>p. map_option (std_sort queryManySort) (st_hits st p))\<rparr>)"

text \<open>
  \<open>VectorTile::_queryMany\<close>. The names in \<open>fields\<close> only select which attributes the
  datasource loads.
\<close>

definition queryMany_impl ::
  "mapnik \<Rightarrow> merc_tile \<Rightarrow> coord2d list \<Rightarrow> real \<Rightarrow> string \<Rightarrow> string list
   \<Rightarrow> string + queryMany_result" where
  "queryMany_impl E d query tolerance nm field_names =
     (case layer_reader d nm of
        None \<Rightarrow> Inl ''Could not find layer in vector tile''
      | Some l \<Rightarrow>
          (case reproject_query E query of
             Inl e \<Rightarrow> Inl e
           | Inr points \<Rightarrow>
               Inr (many_collect E tolerance (l_name l) points
                      (ds_features l (query_bbox points tolerance)))))"


fun StringValue :: "js_value \<Rightarrow> string" where
  "StringValue (JString s) = s"
| "StringValue _ = []"

fun ArrayItems :: "js_value \<Rightarrow> js_value list" where
  "ArrayItems (JArray vs) = vs"
| "ArrayItems _ = []"




section \<open>Notions the claims are stated with\<close>

text \<open>
  The ray from \<open>(x, y)\<close> crosses the ring an odd number of times: the even-odd test
  of one ring taken alone.
\<close>

definition ring_odd :: "mapnik \<Rightarrow> real \<Rightarrow> real \<Rightarrow> coord2d list \<Rightarrow> bool" where
  "ring_odd E x y ring = ring_flips E x y False ring"

text \<open>The number of rings of at least four points that have the point inside.\<close>

definition holes_around :: "mapnik \<Rightarrow> real \<Rightarrow> real \<Rightarrow> coord2d list list \<Rightarrow> nat" where
  "holes_around E x y rings =
     length (filter (ring_odd E x y) (filter (\<lambda>ring. 4 \<le> length ring) rings))"

text \<open>The feature is a hit for the query point \<open>(x, y)\<close> at this tolerance.\<close>

definition hit_within :: "mapnik \<Rightarrow> real \<Rightarrow> real \<Rightarrow> real \<Rightarrow> feature \<Rightarrow> bool" where
  "hit_within E x y tolerance f \<longleftrightarrow>
     0 \<le> distance (path_to_point_distance E (geom f) x y)
     \<and> distance (path_to_point_distance E (geom f) x y) \<le> tolerance"

text \<open>The entry the single-point query pushes for a feature that is a hit.\<close>

definition query_hit_of :: "mapnik \<Rightarrow> real \<Rightarrow> real \<Rightarrow> string \<Rightarrow> feature \<Rightarrow> query_result" where
  "query_hit_of E x y nm f =
     (let p2p = path_to_point_distance E (geom f) x y;
          hit = the (backward E (x_hit p2p, y_hit p2p))
      in \<lparr>distance = distance p2p, x_hit = fst hit, y_hit = snd hit, layer = nm, feature = f\<rparr>)"

text \<open>The feature registers a hit against at least one of the query points.\<close>

definition registers_hit :: "mapnik \<Rightarrow> real \<Rightarrow> coord2d list \<Rightarrow> feature \<Rightarrow> bool" where
  "registers_hit E tolerance points f \<longleftrightarrow>
     (\<exists>pt \<in> set points. hit_within E (fst pt) (snd pt) tolerance f)"

text \<open>The record the batch query stores for a feature.\<close>

definition many_result :: "string \<Rightarrow> feature \<Rightarrow> query_result" where
  "many_result nm f = \<lparr>distance = 0, x_hit = 0, y_hit = 0, layer = nm, feature = f\<rparr>"

text \<open>
  The hits a scan of the features \<open>fs\<close>, numbered from \<open>n\<close>, records for one query
  point: one for each feature within the tolerance of the point, in scan order, with
  the distance of the feature and its number.
\<close>

definition point_hits :: "mapnik \<Rightarrow> real \<Rightarrow> coord2d \<Rightarrow> nat \<Rightarrow> feature list \<Rightarrow> query_hit list" where
  "point_hits E tolerance pt n fs =
     map (\<lambda>kf. \<lparr>hit_distance = distance (path_to_point_distance E (geom (snd kf)) (fst pt) (snd pt)),
                 feature_id = fst kf\<rparr>)
       (filter (\<lambda>kf. hit_within E (fst pt) (snd pt) tolerance (snd kf)) (enumerate n fs))"

text \<open>The same for the query point of index \<open>p\<close>; an index past the last point has none.\<close>

definition recorded_hits ::
  "mapnik \<Rightarrow> real \<Rightarrow> coord2d list \<Rightarrow> nat \<Rightarrow> feature list \<Rightarrow> nat \<Rightarrow> query_hit list" where
  "recorded_hits E tolerance points n fs p =
     (if p < length points then point_hits E tolerance (points ! p) n fs else [])"

text \<open>
  The features of a layer that the datasource returns for the box of the query and that
  register a hit, in scan order.
\<close>

definition hit_features :: "mapnik \<Rightarrow> real \<Rightarrow> coord2d list \<Rightarrow> layer \<Rightarrow> feature list" where
  "hit_features E tolerance points l =
     filter (registers_hit E tolerance points) (ds_features l (query_bbox points tolerance))"

text \<open>The list a map of hit lists holds for a point, empty when it holds none.\<close>

definition hits_at :: "(nat \<rightharpoonup> query_hit list) \<Rightarrow> nat \<Rightarrow> query_hit list" where
  "hits_at m p = (case m p of None \<Rightarrow> [] | Some pointHits \<Rightarrow> pointHits)"


section \<open>Example inputs\<close>

text \<open>A square of side 10 with two nested square holes around its centre.\<close>

definition nested_holes :: "coord2d list list" where
  "nested_holes =
     [[(0, 0), (10, 0), (10, 10), (0, 10), (0, 0)],
      [(2, 2), (2, 8), (8, 8), (8, 2), (2, 2)],
      [(3, 3), (3, 7), (7, 7), (7, 3), (3, 3)]]"

text \<open>
  The tile 0/0/0 with one layer of two point features, one and two metres east of
  the origin of the metric frame.
\<close>

definition two_points :: merc_tile where
  "two_points =
     \<lparr>tile_x = 0, tile_y = 0, tile_z = 0, tile_size = 4096, buffer_size = 128,
      layers = [\<lparr>l_name = ''pts'',
                 l_features = [\<lparr>fid = 1, geom = point (1, 0)\<rparr>, \<lparr>fid = 2, geom = point (2, 0)\<rparr>],
                 l_feature_msgs = []\<rparr>]\<rparr>"


section \<open>Replacing the data of a tile\<close>

text \<open>
  Modelled from the spec: \<open>VectorTile::clear\<close> is declared in the header, which is
  not part of the source file; the spec describes it as dropping all layers.
\<close>

definition clear :: "merc_tile \<Rightarrow> merc_tile" where
  "clear d = d\<lparr>layers := []\<rparr>"

text \<open>
  \<open>merge_from_compressed_buffer\<close> belongs to the tile library and is a parameter: from
  the tile it is given, the bytes and the two flags it yields the message of the
  exception it throws, if any, and the tile as it leaves it.
\<close>

type_synonym merger = "merc_tile \<Rightarrow> bytes \<Rightarrow> bool \<Rightarrow> bool \<Rightarrow> string option \<times> merc_tile"

fun BufferData :: "js_value \<Rightarrow> bytes" where
  "BufferData (JBuffer b) = b"
| "BufferData _ = []"

fun BooleanValue :: "js_value \<Rightarrow> bool" where
  "BooleanValue (JBoolean b) = b"
| "BooleanValue _ = False"

text \<open>The options \<open>validate\<close> and \<open>upgrade\<close>, read the same way by both entry points.\<close>

definition setData_options :: "js_value list \<Rightarrow> js_error + (bool \<times> bool)" where
  "setData_options info =
     (if length info > 1 then
        (if \<not> IsObject (arg info 1) then Inl (TypeError ''second arg must be a options object'')
         else
           case (case Get (arg info 1) ''validate'' of
                   None \<Rightarrow> Inr False
                 | Some param_val \<Rightarrow>
                     if \<not> IsBoolean param_val
                     then Inl (TypeError ''option 'validate' must be a boolean'')
                     else Inr (BooleanValue param_val)) of
             Inl e \<Rightarrow> Inl e
           | Inr validate \<Rightarrow>
               (case Get (arg info 1) ''upgrade'' of
                  None \<Rightarrow> Inr (validate, False)
                | Some param_val \<Rightarrow>
                    if \<not> IsBoolean param_val
                    then Inl (TypeError ''option 'upgrade' must be a boolean'')
                    else Inr (validate, BooleanValue param_val)))
      else Inr (False, False))"

text \<open>
  The \<open>try\<close> block shared by \<open>_setDataSync\<close> and \<open>EIO_SetData\<close>: the tile is cleared,
  then the buffer is merged into it; an exception of the merge is caught and reported.
\<close>

definition clear_and_merge ::
  "merger \<Rightarrow> merc_tile \<Rightarrow> bytes \<Rightarrow> bool \<Rightarrow> bool \<Rightarrow> js_error option \<times> merc_tile" where
  "clear_and_merge merge d buf validate upgrade =
     (case merge (clear d) buf validate upgrade of
        (Some what, d') \<Rightarrow> (Some (Error what), d')
      | (None, d') \<Rightarrow> (None, d'))"

text \<open>
  \<open>VectorTile::_setDataSync\<close>: the error thrown, if any, and the tile after the call.
\<close>

definition setDataSync_impl :: "merger \<Rightarrow> merc_tile \<Rightarrow> js_value list \<Rightarrow> js_error option \<times> merc_tile" where
  "setDataSync_impl merge d info =
     (if length info < 1 \<or> \<not> IsObject (arg info 0)
      then (Some (TypeError ''first argument must be a buffer object''), d)
      else if \<not> IsBuffer (arg info 0)
      then (Some (TypeError ''first arg must be a buffer object''), d)
      else if length (BufferData (arg info 0)) \<le> 0
      then (Some (Error ''cannot accept empty buffer as protobuf''), d)
      else
        case setData_options info of
          Inl e \<Rightarrow> (Some e, d)
        | Inr (validate, upgrade) \<Rightarrow>
            clear_and_merge merge d (BufferData (arg info 0)) validate upgrade)"

text \<open>
  \<open>VectorTile::setData\<close> with \<open>EIO_SetData\<close>: the error thrown or handed to the
  callback, if any, and the tile once the work has run.
\<close>

definition setData :: "merger \<Rightarrow> merc_tile \<Rightarrow> js_value list \<Rightarrow> js_error option \<times> merc_tile" where
  "setData merge d info =
     (if info = [] \<or> \<not> IsFunction (last info) then setDataSync_impl merge d info
      else if length info < 1 \<or> \<not> IsObject (arg info 0)
      then (Some (TypeError ''first argument must be a buffer object''), d)
      else if \<not> IsBuffer (arg info 0)
      then (Some (TypeError ''first arg must be a buffer object''), d)
      else
        case setData_options info of
          Inl e \<Rightarrow> (Some e, d)
        | Inr (validate, upgrade) \<Rightarrow>
            if length (BufferData (arg info 0)) \<le> 0
            then (Some (Error ''cannot accept empty buffer as protobuf''), d)
            else clear_and_merge merge d (BufferData (arg info 0)) validate upgrade)"


text \<open>A merge that throws at once and leaves the tile as it received it.\<close>

definition refuse_all :: merger where
  "refuse_all d buf validate upgrade = (Some ''Vector Tile Buffer contains invalid tag'', d)"

text \<open>
  A merge that appends one layer to the tile it is given and throws at what follows it
  in the buffer.
\<close>

definition append_then_throw :: merger where
  "append_then_throw d buf validate upgrade =
     (Some ''Vector Tile Buffer contains invalid tag'',
      d\<lparr>layers := layers d @ [\<lparr>l_name = ''roads'', l_features = [], l_feature_msgs = []\<rparr>]\<rparr>)"

section \<open>The structural check of a buffer\<close>

text \<open>
  The errors of \<open>mapnik::vector_tile_impl::validity_error\<close> that the source names;
  \<open>OTHER_VALIDITY_ERROR\<close> stands for the remaining ones, which only \<open>layer_is_valid\<close>
  reports.
\<close>

datatype validity_error =
    TILE_REPEATED_LAYER_NAMES
  | TILE_HAS_UNKNOWN_TAG
  | TILE_HAS_DIFFERENT_VERSIONS
  | LAYER_HAS_UNSUPPORTED_VERSION
  | INVALID_PBF_BUFFER
  | OTHER_VALIDITY_ERROR nat

text \<open>
  What the readers of the tile library obtain from one layer message:
  \<open>get_layer_name_and_version\<close> its name and version, and \<open>layer_is_valid\<close> the errors
  it inserts and the five feature counts (points, lines, polygons, unknown, rasters).
  \<open>None\<close> stands for a reader that throws.
\<close>

record feature_counts =
  point_feature_count :: "64 word"
  line_feature_count :: "64 word"
  polygon_feature_count :: "64 word"
  unknown_feature_count :: "64 word"
  raster_feature_count :: "64 word"

record layer_view =
  name_and_version :: "(string \<times> 32 word) option"
  is_valid_result :: "(validity_error set \<times> feature_counts) option"

text \<open>
  The fields of the tile message in the order \<open>tile_msg.next()\<close> reaches them: a layer,
  a field of another tag (with whether \<open>skip()\<close> gets past it), or bytes at which the
  reader throws.
\<close>

datatype tile_field = LAYERS layer_view | UNKNOWN_TAG bool | TRUNCATED

text \<open>
  Detecting compression, inflating and splitting the bytes into fields belong to the
  tile library and protozero: \<open>None\<close> when inflating throws.
\<close>

type_synonym pbf_reader = "bytes \<Rightarrow> tile_field list option"

record layer_obj =
  obj_name :: "string option"
  obj_features :: "64 word"
  obj_counts :: feature_counts
  obj_version :: "32 word"
  obj_errors :: "validity_error set option"

record info_state =
  errors :: "validity_error set"
  has_errors :: bool
  first_layer :: bool
  layer_names_set :: "string set"
  version :: "32 word"
  out_layers :: "layer_obj list"

text \<open>The body of \<open>case Tile_Encoding::LAYERS\<close>; \<open>None\<close> when a reader throws.\<close>

definition info_layer :: "layer_view \<Rightarrow> info_state \<Rightarrow> info_state option" where
  "info_layer lv st =
     (case name_and_version lv of
        None \<Rightarrow> None
      | Some (nm, layer_version) \<Rightarrow>
          (case is_valid_result lv of
             None \<Rightarrow> None
           | Some (found, counts) \<Rightarrow>
               let layer_errors =
                     (if version st > 2 \<or> version st < 1
                      then {LAYER_HAS_UNSUPPORTED_VERSION} else {}) \<union> found;
                   feature_count = point_feature_count counts + line_feature_count counts
                     + polygon_feature_count counts + unknown_feature_count counts
                     + raster_feature_count counts;
                   st1 = (if nm \<noteq> []
                          then st\<lparr>layer_names_set := insert nm (layer_names_set st),
                                   errors := (if nm \<in> layer_names_set st
                                              then insert TILE_REPEATED_LAYER_NAMES (errors st)
                                              else errors st)\<rparr>
                          else st);
                   layer_obj = \<lparr>obj_name = (if nm \<noteq> [] then Some nm else None),
                                obj_features = feature_count, obj_counts = counts,
                                obj_version = layer_version,
                                obj_errors = (if layer_errors \<noteq> {} then Some layer_errors else None)\<rparr>;
                   st2 = (if layer_errors \<noteq> {} then st1\<lparr>has_errors := True\<rparr> else st1);
                   st3 = (if first_layer st2 then st2\<lparr>version := layer_version\<rparr>
                          else if version st2 \<noteq> layer_version
                          then st2\<lparr>errors := insert TILE_HAS_DIFFERENT_VERSIONS (errors st2)\<rparr>
                          else st2)
               in Some (st3\<lparr>first_layer := False, out_layers := out_layers st3 @ [layer_obj]\<rparr>)))"

text \<open>
  The \<open>while (tile_msg.next())\<close> loop inside the \<open>try\<close> block: the state reached, and
  whether the loop was left by an exception.
\<close>

fun info_loop :: "tile_field list \<Rightarrow> info_state \<Rightarrow> info_state \<times> bool" where
  "info_loop [] st = (st, False)"
| "info_loop (LAYERS lv # fs) st =
     (case info_layer lv st of None \<Rightarrow> (st, True) | Some st' \<Rightarrow> info_loop fs st')"
| "info_loop (UNKNOWN_TAG skipped # fs) st =
     (let st' = st\<lparr>errors := insert TILE_HAS_UNKNOWN_TAG (errors st)\<rparr> in
        if skipped then info_loop fs st' else (st', True))"
| "info_loop (TRUNCATED # fs) st = (st, True)"

record info_out =
  info_layers :: "layer_obj list"
  info_errors :: bool
  tile_errors :: "validity_error set option"

text \<open>\<open>VectorTile::info\<close>: the error thrown or the object returned.\<close>

definition VectorTile_info :: "pbf_reader \<Rightarrow> js_value list \<Rightarrow> js_error + info_out" where
  "VectorTile_info reader args =
     (if length args < 1 \<or> \<not> IsObject (arg args 0)
      then Inl (TypeError ''must provide a buffer argument'')
      else if \<not> IsBuffer (arg args 0)
      then Inl (TypeError ''first argument is invalid, must be a Buffer'')
      else
        let st0 = \<lparr>errors = {}, has_errors = False, first_layer = True, layer_names_set = {},
                   version = 1, out_layers = []\<rparr>;
            (st, thrown) = (case reader (BufferData (arg args 0)) of
                              None \<Rightarrow> (st0, True)
                            | Some fs \<Rightarrow> info_loop fs st0);
            errs = (if thrown then insert INVALID_PBF_BUFFER (errors st) else errors st)
        in Inr \<lparr>info_layers = out_layers st,
                info_errors = (has_errors st \<or> errs \<noteq> {}),
                tile_errors = (if errs \<noteq> {} then Some errs else None)\<rparr>)"

text \<open>A field that the loop gets past without an exception.\<close>

fun field_read :: "tile_field \<Rightarrow> bool" where
  "field_read (LAYERS lv) \<longleftrightarrow> name_and_version lv \<noteq> None \<and> is_valid_result lv \<noteq> None"
| "field_read (UNKNOWN_TAG skipped) \<longleftrightarrow> skipped"
| "field_read TRUNCATED \<longleftrightarrow> False"


text \<open>A layer message named \<open>roads\<close> with one line feature and nothing to report.\<close>

definition roads_layer :: "32 word \<Rightarrow> layer_view" where
  "roads_layer v =
     \<lparr>name_and_version = Some (''roads'', v),
      is_valid_result = Some ({}, \<lparr>point_feature_count = 0, line_feature_count = 1,
                                  polygon_feature_count = 0, unknown_feature_count = 0,
                                  raster_feature_count = 0\<rparr>)\<rparr>"

section \<open>Compositing\<close>

record composite_options =
  scale_factor :: real
  offset_x :: "32 word"
  offset_y :: "32 word"
  area_threshold :: real
  strictly_simple :: bool
  multi_polygon_union :: bool
  fill_type :: "32 word"
  scale_denominator :: real
  reencode :: bool
  max_extent :: "box2d option"
  simplify_distance :: real
  process_all_rings :: bool
  image_format :: string
  scaling_method :: nat
  threading_mode :: "32 word"

text \<open>
  What the tile library and the standard library contribute, as parameters: whether a
  number is a fill type below \<open>polygon_fill_type_max\<close>, whether it is one of the three
  launch policies, \<open>scaling_method_from_string\<close>, the three default values that are
  enumerators, and the compositing itself, to which \<open>_composite\<close> hands the target, the
  source tiles and the options: it yields the message of the exception it throws, if
  any, and the target as it leaves it.
\<close>

record compositor =
  fill_type_in_range :: "32 word \<Rightarrow> bool"
  threading_mode_valid :: "32 word \<Rightarrow> bool"
  scaling_method_from_string :: "string \<Rightarrow> nat option"
  positive_fill :: "32 word"
  SCALING_BILINEAR :: nat
  launch_deferred :: "32 word"
  vector_tile_composite ::
    "merc_tile \<Rightarrow> merc_tile list \<Rightarrow> composite_options \<Rightarrow> string option \<times> merc_tile"

definition composite_defaults :: "compositor \<Rightarrow> composite_options" where
  "composite_defaults C =
     \<lparr>scale_factor = 1, offset_x = 0, offset_y = 0, area_threshold = 1 / 10,
      strictly_simple = True, multi_polygon_union = False, fill_type = positive_fill C,
      scale_denominator = 0, reencode = False, max_extent = None, simplify_distance = 0,
      process_all_rings = False, image_format = ''webp'', scaling_method = SCALING_BILINEAR C,
      threading_mode = launch_deferred C\<rparr>"

text \<open>
  One option of the options object: absent, it leaves the options as they are; present,
  it must have the right type and pass the range check, or the call throws.
\<close>

definition number_option ::
  "string \<Rightarrow> js_error \<Rightarrow> (real \<Rightarrow> js_error option)
   \<Rightarrow> (real \<Rightarrow> composite_options \<Rightarrow> composite_options)
   \<Rightarrow> js_value \<Rightarrow> composite_options \<Rightarrow> js_error + composite_options" where
  "number_option key not_a_number range_check update options opts =
     (case Get options key of
        None \<Rightarrow> Inr opts
      | Some v \<Rightarrow>
          if \<not> IsNumber v then Inl not_a_number
          else (case range_check (NumberValue v) of
                  Some e \<Rightarrow> Inl e
                | None \<Rightarrow> Inr (update (NumberValue v) opts)))"

definition boolean_option ::
  "string \<Rightarrow> js_error \<Rightarrow> (bool \<Rightarrow> composite_options \<Rightarrow> composite_options)
   \<Rightarrow> js_value \<Rightarrow> composite_options \<Rightarrow> js_error + composite_options" where
  "boolean_option key not_a_boolean update options opts =
     (case Get options key of
        None \<Rightarrow> Inr opts
      | Some v \<Rightarrow>
          if \<not> IsBoolean v then Inl not_a_boolean
          else Inr (update (BooleanValue v) opts))"

definition max_extent_option :: "js_value \<Rightarrow> composite_options \<Rightarrow> js_error + composite_options" where
  "max_extent_option options opts =
     (case Get options ''max_extent'' of
        None \<Rightarrow> Inr opts
      | Some v \<Rightarrow>
          if \<not> IsArray v
          then Inl (TypeError ''max_extent value must be an array of [minx,miny,maxx,maxy]'')
          else if length (ArrayItems v) \<noteq> 4
          then Inl (TypeError ''max_extent value must be an array of [minx,miny,maxx,maxy]'')
          else if \<not> IsNumber (arg (ArrayItems v) 0) \<or> \<not> IsNumber (arg (ArrayItems v) 1)
                  \<or> \<not> IsNumber (arg (ArrayItems v) 2) \<or> \<not> IsNumber (arg (ArrayItems v) 3)
          then Inl (Error ''max_extent [minx,miny,maxx,maxy] must be numbers'')
          else Inr (opts\<lparr>max_extent :=
                            Some (box2d_init (NumberValue (arg (ArrayItems v) 0))
                                             (NumberValue (arg (ArrayItems v) 1))
                                             (NumberValue (arg (ArrayItems v) 2))
                                             (NumberValue (arg (ArrayItems v) 3)))\<rparr>))"

definition image_scaling_option ::
  "compositor \<Rightarrow> js_value \<Rightarrow> composite_options \<Rightarrow> js_error + composite_options" where
  "image_scaling_option C options opts =
     (case Get options ''image_scaling'' of
        None \<Rightarrow> Inr opts
      | Some v \<Rightarrow>
          if \<not> IsString v then Inl (TypeError ''option 'image_scaling' must be a string'')
          else (case scaling_method_from_string C (StringValue v) of
                  None \<Rightarrow> Inl (TypeError ''option 'image_scaling' must be a string and a valid scaling method (e.g 'bilinear')'')
                | Some method \<Rightarrow> Inr (opts\<lparr>scaling_method := method\<rparr>)))"

definition image_format_option :: "js_value \<Rightarrow> composite_options \<Rightarrow> js_error + composite_options" where
  "image_format_option options opts =
     (case Get options ''image_format'' of
        None \<Rightarrow> Inr opts
      | Some v \<Rightarrow>
          if \<not> IsString v then Inl (TypeError ''option 'image_format' must be a string'')
          else Inr (opts\<lparr>image_format := StringValue v\<rparr>))"

text \<open>The options are read one after the other; the first that throws ends the call.\<close>

fun read_options ::
  "(composite_options \<Rightarrow> js_error + composite_options) list \<Rightarrow> composite_options
   \<Rightarrow> js_error + composite_options" where
  "read_options [] opts = Inr opts"
| "read_options (step # steps) opts =
     (case step opts of Inl e \<Rightarrow> Inl e | Inr opts' \<Rightarrow> read_options steps opts')"

definition when_bad :: "bool \<Rightarrow> js_error \<Rightarrow> js_error option" where
  "when_bad bad e = (if bad then Some e else None)"

text \<open>The option block of \<open>_compositeSync\<close>, in its order.\<close>

definition compositeSync_options ::
  "compositor \<Rightarrow> js_value \<Rightarrow> composite_options \<Rightarrow> js_error + composite_options" where
  "compositeSync_options C options =
     read_options
       [number_option ''area_threshold''
          (TypeError ''option 'area_threshold' must be an floating point number'')
          (\<lambda>v. when_bad (v < 0) (TypeError ''option 'area_threshold' can not be negative''))
          (\<lambda>v opts. opts\<lparr>area_threshold := v\<rparr>) options,
        number_option ''simplify_distance''
          (TypeError ''option 'simplify_distance' must be an floating point number'')
          (\<lambda>v. when_bad (v < 0) (TypeError ''option 'simplify_distance' can not be negative''))
          (\<lambda>v opts. opts\<lparr>simplify_distance := v\<rparr>) options,
        boolean_option ''strictly_simple''
          (TypeError ''option 'strictly_simple' must be a boolean'')
          (\<lambda>b opts. opts\<lparr>strictly_simple := b\<rparr>) options,
        boolean_option ''multi_polygon_union''
          (TypeError ''option 'multi_polygon_union' must be a boolean'')
          (\<lambda>b opts. opts\<lparr>multi_polygon_union := b\<rparr>) options,
        number_option ''fill_type''
          (TypeError ''optional arg 'fill_type' must be a number'')
          (\<lambda>v. when_bad (\<not> fill_type_in_range C (Int32Value v))
                  (TypeError ''optional arg 'fill_type' out of possible range''))
          (\<lambda>v opts. opts\<lparr>fill_type := Int32Value v\<rparr>) options,
        number_option ''threading_mode''
          (TypeError ''option 'threading_mode' must be an unsigned integer'')
          (\<lambda>v. when_bad (\<not> threading_mode_valid C (Int32Value v))
                  (TypeError ''optional arg 'threading_mode' is invalid''))
          (\<lambda>v opts. opts\<lparr>threading_mode := Int32Value v\<rparr>) options,
        number_option ''scale''
          (TypeError ''optional arg 'scale' must be a number'')
          (\<lambda>v. when_bad (v \<le> 0) (TypeError ''optional arg 'scale' must be greater then zero''))
          (\<lambda>v opts. opts\<lparr>scale_factor := v\<rparr>) options,
        number_option ''scale_denominator''
          (TypeError ''optional arg 'scale_denominator' must be a number'')
          (\<lambda>v. when_bad (v < 0)
                  (TypeError ''optional arg 'scale_denominator' must be non negative number''))
          (\<lambda>v opts. opts\<lparr>scale_denominator := v\<rparr>) options,
        number_option ''offset_x''
          (TypeError ''optional arg 'offset_x' must be a number'')
          (\<lambda>v. None) (\<lambda>v opts. opts\<lparr>offset_x := Int32Value v\<rparr>) options,
        number_option ''offset_y''
          (TypeError ''optional arg 'offset_y' must be a number'')
          (\<lambda>v. None) (\<lambda>v opts. opts\<lparr>offset_y := Int32Value v\<rparr>) options,
        boolean_option ''reencode''
          (TypeError ''reencode value must be a boolean'')
          (\<lambda>b opts. opts\<lparr>reencode := b\<rparr>) options,
        max_extent_option options,
        boolean_option ''process_all_rings''
          (TypeError ''option 'process_all_rings' must be a boolean'')
          (\<lambda>b opts. opts\<lparr>process_all_rings := b\<rparr>) options,
        image_scaling_option C options,
        image_format_option options]"

text \<open>
  The option block of \<open>composite\<close>, taken when the last argument is a callback, in its
  order. Its test of \<open>scale\<close> is \<open>scale_factor < 0.0\<close>.
\<close>

definition composite_options_async ::
  "compositor \<Rightarrow> js_value \<Rightarrow> composite_options \<Rightarrow> js_error + composite_options" where
  "composite_options_async C options =
     read_options
       [number_option ''area_threshold''
          (TypeError ''option 'area_threshold' must be a number'')
          (\<lambda>v. when_bad (v < 0) (TypeError ''option 'area_threshold' can not be negative''))
          (\<lambda>v opts. opts\<lparr>area_threshold := v\<rparr>) options,
        boolean_option ''strictly_simple''
          (TypeError ''strictly_simple value must be a boolean'')
          (\<lambda>b opts. opts\<lparr>strictly_simple := b\<rparr>) options,
        boolean_option ''multi_polygon_union''
          (TypeError ''multi_polygon_union value must be a boolean'')
          (\<lambda>b opts. opts\<lparr>multi_polygon_union := b\<rparr>) options,
        number_option ''fill_type''
          (TypeError ''optional arg 'fill_type' must be a number'')
          (\<lambda>v. when_bad (\<not> fill_type_in_range C (Int32Value v))
                  (TypeError ''optional arg 'fill_type' out of possible range''))
          (\<lambda>v opts. opts\<lparr>fill_type := Int32Value v\<rparr>) options,
        number_option ''threading_mode''
          (TypeError ''option 'threading_mode' must be an unsigned integer'')
          (\<lambda>v. when_bad (\<not> threading_mode_valid C (Int32Value v))
                  (TypeError ''optional arg 'threading_mode' is not a valid value''))
          (\<lambda>v opts. opts\<lparr>threading_mode := Int32Value v\<rparr>) options,
        number_option ''simplify_distance''
          (TypeError ''option 'simplify_distance' must be an floating point number'')
          (\<lambda>v. when_bad (v < 0) (TypeError ''option 'simplify_distance' can not be negative''))
          (\<lambda>v opts. opts\<lparr>simplify_distance := v\<rparr>) options,
        number_option ''scale''
          (TypeError ''optional arg 'scale' must be a number'')
          (\<lambda>v. when_bad (v < 0) (TypeError ''option 'scale' can not be negative''))
          (\<lambda>v opts. opts\<lparr>scale_factor := v\<rparr>) options,
        number_option ''scale_denominator''
          (TypeError ''optional arg 'scale_denominator' must be a number'')
          (\<lambda>v. when_bad (v < 0) (TypeError ''option 'scale_denominator' can not be negative''))
          (\<lambda>v opts. opts\<lparr>scale_denominator := v\<rparr>) options,
        number_option ''offset_x''
          (TypeError ''optional arg 'offset_x' must be a number'')
          (\<lambda>v. None) (\<lambda>v opts. opts\<lparr>offset_x := Int32Value v\<rparr>) options,
        number_option ''offset_y''
          (TypeError ''optional arg 'offset_y' must be a number'')
          (\<lambda>v. None) (\<lambda>v opts. opts\<lparr>offset_y := Int32Value v\<rparr>) options,
        boolean_option ''reencode''
          (TypeError ''reencode value must be a boolean'')
          (\<lambda>b opts. opts\<lparr>reencode := b\<rparr>) options,
        max_extent_option options,
        boolean_option ''process_all_rings''
          (TypeError ''option 'process_all_rings' must be a boolean'')
          (\<lambda>b opts. opts\<lparr>process_all_rings := b\<rparr>) options,
        image_scaling_option C options,
        image_format_option options]"

text \<open>The source tiles are unwrapped in order; an element that is no tile throws.\<close>

fun unwrap_tiles :: "js_value list \<Rightarrow> js_error + merc_tile list" where
  "unwrap_tiles [] = Inr []"
| "unwrap_tiles (JVectorTile vt # vals) =
     (case unwrap_tiles vals of Inl e \<Rightarrow> Inl e | Inr vts \<Rightarrow> Inr (vt # vts))"
| "unwrap_tiles (val # vals) = Inl (TypeError ''must provide an array of VectorTile objects'')"

text \<open>
  \<open>VectorTile::_compositeSync\<close>: the error thrown, if any, and the target tile after the
  call. An exception of the compositing is rethrown as a type error.
\<close>

definition compositeSync_impl ::
  "compositor \<Rightarrow> merc_tile \<Rightarrow> js_value list \<Rightarrow> js_error option \<times> merc_tile" where
  "compositeSync_impl C target_vt info =
     (if length info < 1 \<or> \<not> IsArray (arg info 0)
      then (Some (TypeError ''must provide an array of VectorTile objects and an optional options object''), target_vt)
      else if length (ArrayItems (arg info 0)) < 1
      then (Some (TypeError ''must provide an array with at least one VectorTile object and an optional options object''), target_vt)
      else
        case (if length info > 1 then
                (if \<not> IsObject (arg info 1)
                 then Inl (TypeError ''optional second argument must be an options object'')
                 else compositeSync_options C (arg info 1) (composite_defaults C))
              else Inr (composite_defaults C)) of
          Inl e \<Rightarrow> (Some e, target_vt)
        | Inr opts \<Rightarrow>
            (case unwrap_tiles (ArrayItems (arg info 0)) of
               Inl e \<Rightarrow> (Some e, target_vt)
             | Inr vtiles \<Rightarrow>
                 (case vector_tile_composite C target_vt vtiles opts of
                    (Some what, target') \<Rightarrow> (Some (TypeError what), target')
                  | (None, target') \<Rightarrow> (None, target'))))"

text \<open>
  \<open>VectorTile::composite\<close> with \<open>EIO_Composite\<close>: the error thrown or handed to the
  callback, if any, and the target tile once the work has run.
\<close>

definition composite :: "compositor \<Rightarrow> merc_tile \<Rightarrow> js_value list \<Rightarrow> js_error option \<times> merc_tile" where
  "composite C target_vt info =
     (if length info < 2 \<or> \<not> IsFunction (last info) then compositeSync_impl C target_vt info
      else if \<not> IsArray (arg info 0)
      then (Some (TypeError ''must provide an array of VectorTile objects and an optional options object''), target_vt)
      else if length (ArrayItems (arg info 0)) < 1
      then (Some (TypeError ''must provide an array with at least one VectorTile object and an optional options object''), target_vt)
      else
        case (if length info > 2 then
                (if \<not> IsObject (arg info 1)
                 then Inl (TypeError ''optional second argument must be an options object'')
                 else composite_options_async C (arg info 1) (composite_defaults C))
              else Inr (composite_defaults C)) of
          Inl e \<Rightarrow> (Some e, target_vt)
        | Inr opts \<Rightarrow>
            (case unwrap_tiles (ArrayItems (arg info 0)) of
               Inl e \<Rightarrow> (Some e, target_vt)
             | Inr vtiles \<Rightarrow>
                 (case vector_tile_composite C target_vt vtiles opts of
                    (Some what, target') \<Rightarrow> (Some (Error what), target')
                  | (None, target') \<Rightarrow> (None, target'))))"


text \<open>
  A compositor for the examples: four fill types, three launch policies, one scaling
  method, and a compositing that leaves the target as it is.
\<close>

definition passive_compositor :: compositor where
  "passive_compositor =
     \<lparr>fill_type_in_range = (\<lambda>v. v < 4), threading_mode_valid = (\<lambda>v. v = 1 \<or> v = 2 \<or> v = 3),
      scaling_method_from_string = (\<lambda>s. if s = ''bilinear'' then Some 1 else None),
      positive_fill = 2, SCALING_BILINEAR = 1, launch_deferred = 2,
      vector_tile_composite = (\<lambda>target vtiles opts. (None, target))\<rparr>"

section \<open>The validity report\<close>

text \<open>
  The functions of mapnik that the validity check calls are parameters:
  \<open>mapnik::geometry::is_valid\<close> with the message it writes, \<open>mapnik::util::to_geojson\<close>
  for a feature of a given id and geometry (\<open>None\<close> when it returns false) and
  \<open>mapnik::geometry::reproject_copy\<close> from the metric frame to longitude/latitude.
  The attributes of a feature are not modelled.
\<close>

record validity =
  is_valid :: "geometry \<Rightarrow> bool \<times> string"
  to_geojson :: "int \<Rightarrow> geometry \<Rightarrow> string option"
  reproject_copy :: "geometry \<Rightarrow> geometry"

record not_valid_feature =
  nv_message :: string
  nv_layer :: string
  nv_feature_id :: int
  nv_geojson :: string

definition collection_open :: string where
  \<open>collection_open = ''{"type":"FeatureCollection","features":[''\<close>

definition collection_close :: string where
  "collection_close = '']}''"

text \<open>
  The block every case of \<open>visitor_geom_valid\<close> runs on the geometry it checks: when
  the geometry is not valid, one entry is appended to \<open>errors\<close>; a failure to write the
  GeoJSON throws.
\<close>

definition not_valid_report ::
  "validity \<Rightarrow> int \<Rightarrow> string \<Rightarrow> geometry \<Rightarrow> not_valid_feature list
   \<Rightarrow> string + not_valid_feature list" where
  "not_valid_report V feature_id' layer_name g errors' =
     (case is_valid V g of
        (True, message) \<Rightarrow> Inr errors'
      | (False, message) \<Rightarrow>
          (case to_geojson V feature_id' g of
             None \<Rightarrow> Inl ''Failed to generate GeoJSON geometry''
           | Some feature_str \<Rightarrow>
               Inr (errors' @ [\<lparr>nv_message = message, nv_layer = layer_name,
                                 nv_feature_id = feature_id',
                                 nv_geojson = collection_open @ feature_str @ collection_close\<rparr>])))"

fun not_valid_report_each ::
  "validity \<Rightarrow> int \<Rightarrow> string \<Rightarrow> geometry list \<Rightarrow> not_valid_feature list
   \<Rightarrow> string + not_valid_feature list" where
  "not_valid_report_each V feature_id' layer_name [] errors' = Inr errors'"
| "not_valid_report_each V feature_id' layer_name (g # gs) errors' =
     (case not_valid_report V feature_id' layer_name g errors' of
        Inl e \<Rightarrow> Inl e
      | Inr errors'' \<Rightarrow> not_valid_report_each V feature_id' layer_name gs errors'')"

text \<open>
  \<open>visitor_geom_valid\<close>: a multi-line and a multi-polygon are checked part by part
  when \<open>split_multi_features\<close> is set and as a whole otherwise; the members of a
  collection are visited in turn.
\<close>

fun visitor_geom_valid ::
  "validity \<Rightarrow> int \<Rightarrow> string \<Rightarrow> bool \<Rightarrow> geometry \<Rightarrow> not_valid_feature list
   \<Rightarrow> string + not_valid_feature list"
and visitor_geom_valid_each ::
  "validity \<Rightarrow> int \<Rightarrow> string \<Rightarrow> bool \<Rightarrow> geometry list \<Rightarrow> not_valid_feature list
   \<Rightarrow> string + not_valid_feature list" where
  "visitor_geom_valid V i nm split_multi_features geometry_empty errors' = Inr errors'"
| "visitor_geom_valid V i nm split_multi_features (point pt) errors' =
     not_valid_report V i nm (point pt) errors'"
| "visitor_geom_valid V i nm split_multi_features (multi_point pts) errors' =
     not_valid_report V i nm (multi_point pts) errors'"
| "visitor_geom_valid V i nm split_multi_features (line_string pts) errors' =
     not_valid_report V i nm (line_string pts) errors'"
| "visitor_geom_valid V i nm split_multi_features (multi_line_string lines) errors' =
     (if split_multi_features
      then not_valid_report_each V i nm (map line_string lines) errors'
      else not_valid_report V i nm (multi_line_string lines) errors')"
| "visitor_geom_valid V i nm split_multi_features (polygon poly) errors' =
     not_valid_report V i nm (polygon poly) errors'"
| "visitor_geom_valid V i nm split_multi_features (multi_polygon polys) errors' =
     (if split_multi_features
      then not_valid_report_each V i nm (map polygon polys) errors'
      else not_valid_report V i nm (multi_polygon polys) errors')"
| "visitor_geom_valid V i nm split_multi_features (geometry_collection gs) errors' =
     visitor_geom_valid_each V i nm split_multi_features gs errors'"
| "visitor_geom_valid_each V i nm split_multi_features [] errors' = Inr errors'"
| "visitor_geom_valid_each V i nm split_multi_features (g # gs) errors' =
     (case visitor_geom_valid V i nm split_multi_features g errors' of
        Inl e \<Rightarrow> Inl e
      | Inr errors'' \<Rightarrow> visitor_geom_valid_each V i nm split_multi_features gs errors'')"

text \<open>
  With \<open>web_merc\<close> or \<open>lat_lon\<close> the layer is read through its datasource with a query
  box that spans all doubles, so every feature that has a point is handed out; with
  \<open>lat_lon\<close> the geometry is reprojected before it is visited.
\<close>

definition ds_features_all :: "layer \<Rightarrow> feature list" where
  "ds_features_all l = filter (\<lambda>f. envelope (geom f) \<noteq> box2d_default) (l_features l)"

fun not_valid_features ::
  "validity \<Rightarrow> string \<Rightarrow> bool \<Rightarrow> bool \<Rightarrow> feature list \<Rightarrow> not_valid_feature list
   \<Rightarrow> string + not_valid_feature list" where
  "not_valid_features V nm split_multi_features lat_lon [] errors' = Inr errors'"
| "not_valid_features V nm split_multi_features lat_lon (f # fs) errors' =
     (case visitor_geom_valid V (fid f) nm split_multi_features
             (if lat_lon then reproject_copy V (geom f) else geom f) errors' of
        Inl e \<Rightarrow> Inl e
      | Inr errors'' \<Rightarrow> not_valid_features V nm split_multi_features lat_lon fs errors'')"

text \<open>
  Otherwise the feature messages are read from the layer's bytes. A message that has
  both a geometry and a type is decoded, and the geometry is set on a feature created
  by \<open>feature_factory::create(ctx,1)\<close>, that is with the id 1, which is then visited.
\<close>

fun not_valid_messages ::
  "validity \<Rightarrow> string \<Rightarrow> bool \<Rightarrow> feature_msg list \<Rightarrow> not_valid_feature list
   \<Rightarrow> string + not_valid_feature list" where
  "not_valid_messages V nm split_multi_features [] errors' = Inr errors'"
| "not_valid_messages V nm split_multi_features (m # ms) errors' =
     (case (case (msg_geometry m, msg_type m) of
              (Some g, Some geom_type_enum) \<Rightarrow>
                visitor_geom_valid V 1 nm split_multi_features g errors'
            | _ \<Rightarrow> Inr errors') of
        Inl e \<Rightarrow> Inl e
      | Inr errors'' \<Rightarrow> not_valid_messages V nm split_multi_features ms errors'')"

definition layer_not_valid ::
  "validity \<Rightarrow> layer \<Rightarrow> not_valid_feature list \<Rightarrow> bool \<Rightarrow> bool \<Rightarrow> bool
   \<Rightarrow> string + not_valid_feature list" where
  "layer_not_valid V l errors' split_multi_features lat_lon web_merc =
     (if web_merc \<or> lat_lon
      then not_valid_features V (l_name l) split_multi_features lat_lon (ds_features_all l) errors'
      else not_valid_messages V (l_name l) split_multi_features (l_feature_msgs l) errors')"

fun not_valid_layers ::
  "validity \<Rightarrow> layer list \<Rightarrow> not_valid_feature list \<Rightarrow> bool \<Rightarrow> bool \<Rightarrow> bool
   \<Rightarrow> string + not_valid_feature list" where
  "not_valid_layers V [] errors' split_multi_features lat_lon web_merc = Inr errors'"
| "not_valid_layers V (l # ls) errors' split_multi_features lat_lon web_merc =
     (case layer_not_valid V l errors' split_multi_features lat_lon web_merc of
        Inl e \<Rightarrow> Inl e
      | Inr errors'' \<Rightarrow> not_valid_layers V ls errors'' split_multi_features lat_lon web_merc)"

text \<open>\<open>vector_tile_not_valid\<close>, started on an empty list of errors.\<close>

definition vector_tile_not_valid ::
  "validity \<Rightarrow> merc_tile \<Rightarrow> bool \<Rightarrow> bool \<Rightarrow> bool \<Rightarrow> string + not_valid_feature list" where
  "vector_tile_not_valid V v split_multi_features lat_lon web_merc =
     not_valid_layers V (layers v) [] split_multi_features lat_lon web_merc"


section \<open>What the validity report should list\<close>

text \<open>
  The geometries of a feature that the validity check looks at: the whole geometry, or
  each part of a multi-line or multi-polygon when \<open>split_multi_features\<close> is set;
  the members of a collection are looked at one by one, an empty geometry not at all.
\<close>

fun checked_parts :: "bool \<Rightarrow> geometry \<Rightarrow> geometry list" where
  "checked_parts split geometry_empty = []"
| "checked_parts split (point pt) = [point pt]"
| "checked_parts split (multi_point pts) = [multi_point pts]"
| "checked_parts split (line_string pts) = [line_string pts]"
| "checked_parts split (multi_line_string lines) =
     (if split then map line_string lines else [multi_line_string lines])"
| "checked_parts split (polygon poly) = [polygon poly]"
| "checked_parts split (multi_polygon polys) =
     (if split then map polygon polys else [multi_polygon polys])"
| "checked_parts split (geometry_collection gs) = concat (map (checked_parts split) gs)"

text \<open>The finding for one checked geometry that is not valid.\<close>

definition finding_of :: "validity \<Rightarrow> string \<Rightarrow> int \<Rightarrow> geometry \<Rightarrow> not_valid_feature" where
  "finding_of V nm i part =
     \<lparr>nv_message = snd (is_valid V part), nv_layer = nm, nv_feature_id = i,
      nv_geojson = collection_open @ the (to_geojson V i part) @ collection_close\<rparr>"

text \<open>The findings for one feature, given as its id and geometry.\<close>

definition findings_of :: "validity \<Rightarrow> string \<Rightarrow> bool \<Rightarrow> int \<times> geometry \<Rightarrow> not_valid_feature list" where
  "findings_of V nm split ig =
     map (finding_of V nm (fst ig))
       (filter (\<lambda>part. \<not> fst (is_valid V part)) (checked_parts split (snd ig)))"

text \<open>
  The features of a layer that are checked, as id and geometry: those of the datasource
  with \<open>web_merc\<close> or \<open>lat_lon\<close>, otherwise the feature messages that have a geometry
  and a type, with the id \<open>raw_id\<close> gives them.
\<close>

definition layer_checked ::
  "validity \<Rightarrow> (feature_msg \<Rightarrow> int) \<Rightarrow> layer \<Rightarrow> bool \<Rightarrow> bool \<Rightarrow> (int \<times> geometry) list" where
  "layer_checked V raw_id l lat_lon web_merc =
     (if web_merc \<or> lat_lon
      then map (\<lambda>f. (fid f, if lat_lon then reproject_copy V (geom f) else geom f))
             (ds_features_all l)
      else map (\<lambda>m. (raw_id m, the (msg_geometry m)))
             (filter (\<lambda>m. msg_geometry m \<noteq> None \<and> msg_type m \<noteq> None) (l_feature_msgs l)))"

text \<open>In the spec's words: the full list of offending features, over all layers.\<close>

definition all_findings ::
  "validity \<Rightarrow> (feature_msg \<Rightarrow> int) \<Rightarrow> merc_tile \<Rightarrow> bool \<Rightarrow> bool \<Rightarrow> bool \<Rightarrow> not_valid_feature list" where
  "all_findings V raw_id v split lat_lon web_merc =
     concat (map (\<lambda>l. concat (map (findings_of V (l_name l) split)
                                  (layer_checked V raw_id l lat_lon web_merc)))
                 (layers v))"

section \<open>Example inputs of the validity report\<close>

text \<open>
  A validity check for the examples. It knows two of the rules of OGC validity for
  polygons: a ring has at least four points, and no two edges of a ring cross each
  other. Its GeoJSON writer returns a fixed feature string.
\<close>

definition ccw :: "coord2d \<Rightarrow> coord2d \<Rightarrow> coord2d \<Rightarrow> real" where
  "ccw a b c = (fst b - fst a) * (snd c - snd a) - (snd b - snd a) * (fst c - fst a)"

definition properly_cross :: "coord2d \<times> coord2d \<Rightarrow> coord2d \<times> coord2d \<Rightarrow> bool" where
  "properly_cross e1 e2 \<longleftrightarrow>
     ccw (fst e1) (snd e1) (fst e2) * ccw (fst e1) (snd e1) (snd e2) < 0
     \<and> ccw (fst e2) (snd e2) (fst e1) * ccw (fst e2) (snd e2) (snd e1) < 0"

definition ring_self_crosses :: "coord2d list \<Rightarrow> bool" where
  "ring_self_crosses ring \<longleftrightarrow>
     list_ex (\<lambda>e1. list_ex (properly_cross e1) (segments ring)) (segments ring)"

definition polygon_check :: "coord2d list list \<Rightarrow> bool \<times> string" where
  "polygon_check rings =
     (if list_ex (\<lambda>ring. length ring < 4) rings then (False, ''Geometry has too few points'')
      else if list_ex ring_self_crosses rings
      then (False, ''Geometry has invalid self-intersections'')
      else (True, []))"

fun crossing_check :: "geometry \<Rightarrow> bool \<times> string" where
  "crossing_check (polygon rings) = polygon_check rings"
| "crossing_check (multi_polygon polys) =
     (case filter (\<lambda>rings. \<not> fst (polygon_check rings)) polys of
        [] \<Rightarrow> (True, [])
      | rings # _ \<Rightarrow> polygon_check rings)"
| "crossing_check _ = (True, [])"

definition feature_stub :: string where
  \<open>feature_stub = ''{"type":"Feature"}''\<close>

definition crossing_checks :: validity where
  "crossing_checks =
     \<lparr>is_valid = crossing_check, to_geojson = (\<lambda>i g. Some feature_stub),
      reproject_copy = (\<lambda>g. g)\<rparr>"

text \<open>
  The bowtie: a ring whose first and third edge cross. And the tile 0/0/0 with one
  layer \<open>shapes\<close> that holds one feature, of id 7, with a given geometry.
\<close>

definition bowtie :: "real \<Rightarrow> coord2d list list" where
  "bowtie x = [[(x, 0), (x + 10, 10), (x + 10, 0), (x, 10), (x, 0)]]"

definition shapes_tile :: "geometry \<Rightarrow> merc_tile" where
  "shapes_tile g =
     \<lparr>tile_x = 0, tile_y = 0, tile_z = 0, tile_size = 4096, buffer_size = 128,
      layers = [\<lparr>l_name = ''shapes'', l_features = [\<lparr>fid = 7, geom = g\<rparr>],
                 l_feature_msgs = [\<lparr>msg_id = Some 7, msg_type = Some 3, msg_geometry = Some g\<rparr>]\<rparr>]\<rparr>"

section \<open>Results\<close>

text \<open>
  C2, at the failing input. The constructor accepts \<open>tile_size = 4096\<close> with
  \<open>buffer_size = -2000\<close>, and the tile satisfies the invariant. Assigning
  \<open>tileSize = 100\<close> is then accepted without an error, and the tile is left with
  \<open>100 + 2 * (-2000) \<le> 0\<close>: \<open>set_tile_size\<close> tests only that the new size is
  positive, where \<open>set_buffer_size\<close> and the constructor test the sum.
\<close>

theorem set_tile_size_breaks_invariant:
  "New [JNumber 0, JNumber 0, JNumber 0,
        JObject [(''tile_size'', JNumber 4096), (''buffer_size'', JNumber (-2000))]]
     = Inr (narrow_buffer_tile 4096)
   \<and> tile_invariant (narrow_buffer_tile 4096)
   \<and> set_tile_size (narrow_buffer_tile 4096) (JNumber 100) = (None, narrow_buffer_tile 100)
   \<and> \<not> tile_invariant (narrow_buffer_tile 100)"
  by (simp add: New_def New_options_def arg_def Int32Value_def tile_invariant_def
      set_tile_size_def narrow_buffer_tile_def Let_def)

theorem set_tile_size_breaks_invariant_witness:
  "snd (set_tile_size (narrow_buffer_tile 4096) (JNumber 100)) = narrow_buffer_tile 100"
  using set_tile_size_breaks_invariant by simp

subsection \<open>Helper lemmas: the crossing parity of the rings\<close>

lemma foldl_flip:
  fixes c :: "'s \<Rightarrow> bool"
  defines "f \<equiv> \<lambda>ins seg. if c seg then \<not> ins else ins"
  shows "foldl f a segs = (a \<noteq> foldl f False segs)"
proof (induction segs arbitrary: a)
  case Nil
  then show ?case by simp
next
  case (Cons s segs)
  have "foldl f a (s # segs) = (f a s \<noteq> foldl f False segs)"
    using Cons.IH [of "f a s"] by simp
  moreover have "foldl f False (s # segs) = (f False s \<noteq> foldl f False segs)"
    using Cons.IH [of "f False s"] by simp
  moreover have "f a s = (a \<noteq> c s)" "f False s = c s"
    by (simp_all add: f_def)
  ultimately show ?case by blast
qed

lemma ring_flips_odd: "ring_flips E x y inside ring = (inside \<noteq> ring_odd E x y ring)"
  unfolding ring_flips_def ring_odd_def by (rule foldl_flip)

lemma p2p_rings_interior:
  "p2p_rings E x y (Suc n) inside rings =
     (if inside \<noteq> odd (holes_around E x y rings) then p2p_new\<lparr>distance := 0\<rparr> else p2p_new)"
proof (induction rings arbitrary: n inside)
  case Nil
  then show ?case by (simp add: holes_around_def)
next
  case (Cons ring rings)
  show ?case
  proof (cases "length ring < 4")
    case True
    then show ?thesis using Cons.IH [of "Suc n" inside] by (simp add: holes_around_def)
  next
    case False
    then show ?thesis
      using Cons.IH [of "Suc n" "ring_flips E x y inside ring"]
      by (auto simp add: holes_around_def ring_flips_odd Let_def)
  qed
qed

subsection \<open>Helper lemmas: sorting and the scan of the single-point query\<close>

lemma set_sort_insert: "set (sort_insert cmp a xs) = insert a (set xs)"
  by (induction xs) auto

lemma set_std_sort: "set (std_sort cmp xs) = set xs"
  unfolding std_sort_def by (induction xs) (simp_all add: set_sort_insert)

lemma sorted_sort_insert:
  assumes asym: "\<And>a b. cmp a b \<Longrightarrow> \<not> cmp b a"
    and negtrans: "\<And>a b c. \<not> cmp a b \<Longrightarrow> \<not> cmp b c \<Longrightarrow> \<not> cmp a c"
  shows "sorted_wrt (\<lambda>a b. \<not> cmp b a) xs \<Longrightarrow> sorted_wrt (\<lambda>a b. \<not> cmp b a) (sort_insert cmp a xs)"
proof (induction xs)
  case Nil
  then show ?case by simp
next
  case (Cons b bs)
  show ?case
  proof (cases "cmp b a")
    case True
    then show ?thesis using Cons asym by (auto simp add: set_sort_insert)
  next
    case False
    then show ?thesis using Cons negtrans by auto
  qed
qed

lemma sorted_std_sort:
  assumes asym: "\<And>a b. cmp a b \<Longrightarrow> \<not> cmp b a"
    and negtrans: "\<And>a b c. \<not> cmp a b \<Longrightarrow> \<not> cmp b c \<Longrightarrow> \<not> cmp a c"
  shows "sorted_wrt (\<lambda>a b. \<not> cmp b a) (std_sort cmp xs)"
  unfolding std_sort_def
  by (induction xs) (simp_all add: sorted_sort_insert [OF asym negtrans])

lemma sorted_queryManySort:
  "sorted_wrt (\<lambda>a b. hit_distance a \<le> hit_distance b) (std_sort queryManySort hs)"
proof -
  have "sorted_wrt (\<lambda>a b. \<not> queryManySort b a) (std_sort queryManySort hs)"
    by (rule sorted_std_sort) (auto simp add: queryManySort_def)
  then show ?thesis by (simp add: queryManySort_def not_less)
qed

lemma query_features_Inr:
  "query_features E x y t nm fs arr = Inr arr' \<Longrightarrow>
     arr' = arr @ map (query_hit_of E x y nm) (filter (hit_within E x y t) fs)"
proof (induction fs arbitrary: arr)
  case Nil
  then show ?case by simp
next
  case (Cons f fs)
  from Cons.prems obtain hit where
    b: "backward E (x_hit (path_to_point_distance E (geom f) x y),
                    y_hit (path_to_point_distance E (geom f) x y)) = Some hit"
    by (auto simp add: Let_def split: option.splits)
  show ?case
  proof (cases "hit_within E x y t f")
    case True
    with Cons.prems b have
      "query_features E x y t nm fs (arr @ [query_hit_of E x y nm f]) = Inr arr'"
      by (simp add: Let_def hit_within_def query_hit_of_def)
    from Cons.IH [OF this] True show ?thesis by simp
  next
    case False
    with Cons.prems b have "query_features E x y t nm fs arr = Inr arr'"
      by (auto simp add: Let_def hit_within_def)
    from Cons.IH [OF this] False show ?thesis by simp
  qed
qed

lemma query_layers_Inr:
  "query_layers E x y t ls arr = Inr arr' \<Longrightarrow>
     arr' = arr @ concat (map (\<lambda>l. map (query_hit_of E x y (l_name l))
                                   (filter (hit_within E x y t) (features_at_point l (x, y) t))) ls)"
proof (induction ls arbitrary: arr)
  case Nil
  then show ?case by simp
next
  case (Cons l ls)
  from Cons.prems obtain arr1 where
    a: "query_features E x y t (l_name l) (features_at_point l (x, y) t) arr = Inr arr1"
    and r: "query_layers E x y t ls arr1 = Inr arr'"
    by (auto split: sum.splits)
  show ?case using query_features_Inr [OF a] Cons.IH [OF r] by simp
qed

lemma intersects_grow:
  assumes "0 \<le> t" "t \<le> t'"
    and "intersects (box2d_init (x - t) (y - t) (x + t) (y + t)) b"
  shows "intersects (box2d_init (x - t') (y - t') (x + t') (y + t')) b"
  using assms by (cases b) (auto simp add: box2d_init_def split: if_splits)

lemma features_at_point_mono:
  assumes "0 \<le> t" "t \<le> t'" "f \<in> set (features_at_point l (x, y) t)"
  shows "f \<in> set (features_at_point l (x, y) t')"
  using assms intersects_grow [of t t' x y]
  by (auto simp add: features_at_point_def ds_features_def)

lemma hits_mono:
  assumes "t \<le> t'"
    and "f \<in> set (filter (hit_within E x y t) (features_at_point l (x, y) t))"
  shows "f \<in> set (filter (hit_within E x y t') (features_at_point l (x, y) t'))"
proof -
  from assms(2) have h: "hit_within E x y t f" and m: "f \<in> set (features_at_point l (x, y) t)"
    by auto
  from h have "0 \<le> t" by (auto simp add: hit_within_def)
  with m assms(1) have "f \<in> set (features_at_point l (x, y) t')"
    by (rule_tac features_at_point_mono) auto
  moreover from h assms(1) have "hit_within E x y t' f" by (auto simp add: hit_within_def)
  ultimately show ?thesis by simp
qed

lemma query_scan_mono:
  assumes "t \<le> t'"
    and "query_scan E d x y t nm = Inr arr"
    and "query_scan E d x y t' nm = Inr arr'"
  shows "set arr \<subseteq> set arr'"
proof (cases "nm = []")
  case True
  with assms have a: "query_layers E x y t (layers d) [] = Inr arr"
    and b: "query_layers E x y t' (layers d) [] = Inr arr'"
    by (simp_all add: query_scan_def)
  show ?thesis
    using query_layers_Inr [OF a] query_layers_Inr [OF b] hits_mono [OF assms(1)]
    by auto
next
  case False
  show ?thesis
  proof (cases "layer_reader d nm")
    case None
    with False assms show ?thesis by (simp add: query_scan_def)
  next
    case (Some l)
    with False assms have
      a: "query_features E x y t nm (features_at_point l (x, y) t) [] = Inr arr"
      and b: "query_features E x y t' nm (features_at_point l (x, y) t') [] = Inr arr'"
      by (simp_all add: query_scan_def)
    show ?thesis
      using query_features_Inr [OF a] query_features_Inr [OF b] hits_mono [OF assms(1)]
      by auto
  qed
qed


lemma query_two_points_1:
  "query_impl result_greater planar two_points 0 0 1 [] =
     Inr [\<lparr>distance = 1, x_hit = 1, y_hit = 0, layer = ''pts'',
            feature = \<lparr>fid = 1, geom = point (1, 0)\<rparr>\<rparr>]"
  by (simp add: query_impl_def is_empty_def two_points_def planar_def query_scan_def
      features_at_point_def ds_features_def box2d_init_def envelope_def p2p_point_def
      euclid_distance_def distance2_def std_sort_def)

lemma query_two_points_5:
  "query_impl result_greater planar two_points 0 0 5 [] =
     Inr (std_sort result_greater
            [\<lparr>distance = 1, x_hit = 1, y_hit = 0, layer = ''pts'',
               feature = \<lparr>fid = 1, geom = point (1, 0)\<rparr>\<rparr>,
             \<lparr>distance = 2, x_hit = 2, y_hit = 0, layer = ''pts'',
               feature = \<lparr>fid = 2, geom = point (2, 0)\<rparr>\<rparr>])"
  by (simp add: query_impl_def is_empty_def two_points_def planar_def query_scan_def
      features_at_point_def ds_features_def box2d_init_def envelope_def p2p_point_def
      euclid_distance_def distance2_def)

text \<open>
  Whatever the comparison is, as long as it is a strict weak ordering, the result of
  the query is ordered by it: no entry is \<open>result_greater\<close> than an entry ahead of it.
\<close>

lemma query_impl_sorted:
  assumes "\<And>a b. result_greater a b \<Longrightarrow> \<not> result_greater b a"
    and "\<And>a b c. \<not> result_greater a b \<Longrightarrow> \<not> result_greater b c \<Longrightarrow> \<not> result_greater a c"
    and "query_impl result_greater E d lon lat t nm = Inr rs"
  shows "sorted_wrt (\<lambda>a b. \<not> result_greater b a) rs"
proof (cases "is_empty d")
  case True
  with assms(3) show ?thesis by (simp add: query_impl_def)
next
  case False
  with assms(3) obtain arr where "rs = std_sort result_greater arr"
    by (auto simp add: query_impl_def split: option.splits sum.splits)
  then show ?thesis using sorted_std_sort [of result_greater, OF assms(1,2)] by simp
qed

text \<open>
  C4. When the query at tolerance \<open>t\<close> and the query at a tolerance \<open>t' \<ge> t\<close> both
  return, every entry of the first result (the feature with its layer, distance and
  hit) is an entry of the second. This holds for every geometry type, the point and
  line types of the claim among them, and whatever comparison orders the result.
\<close>

theorem query_tolerance_monotone:
  assumes "t \<le> t'"
    and "query_impl result_greater E d lon lat t nm = Inr rs"
    and "query_impl result_greater E d lon lat t' nm = Inr rs'"
    and "r \<in> set rs"
  shows "r \<in> set rs'"
proof (cases "is_empty d")
  case True
  with assms show ?thesis by (simp add: query_impl_def)
next
  case False
  with assms(2) obtain pt where pt: "forward E (lon, lat) = Some pt"
    by (auto simp add: query_impl_def split: option.splits)
  from False pt assms(2) obtain arr where
    a: "query_scan E d (fst pt) (snd pt) t nm = Inr arr" and rs: "rs = std_sort result_greater arr"
    by (auto simp add: query_impl_def split: sum.splits)
  from False pt assms(3) obtain arr' where
    b: "query_scan E d (fst pt) (snd pt) t' nm = Inr arr'" and rs': "rs' = std_sort result_greater arr'"
    by (auto simp add: query_impl_def split: sum.splits)
  from query_scan_mono [OF assms(1) a b] assms(4) rs rs' show ?thesis
    by (auto simp add: set_std_sort)
qed

theorem query_tolerance_monotone_witness:
  "\<forall>result_greater.
     \<lparr>distance = 1, x_hit = 1, y_hit = 0, layer = ''pts'',
       feature = \<lparr>fid = 1, geom = point (1, 0)\<rparr>\<rparr>
       \<in> set (projr (query_impl result_greater planar two_points 0 0 5 []))"
proof
  fix result_greater :: "query_result \<Rightarrow> query_result \<Rightarrow> bool"
  have "(1::real) \<le> 5" by simp
  from query_tolerance_monotone
         [OF this query_two_points_1 [of result_greater] query_two_points_5 [of result_greater]]
  show "\<lparr>distance = 1, x_hit = 1, y_hit = 0, layer = ''pts'',
          feature = \<lparr>fid = 1, geom = point (1, 0)\<rparr>\<rparr>
          \<in> set (projr (query_impl result_greater planar two_points 0 0 5 []))"
    by (simp add: query_two_points_5)
qed

subsection \<open>Helper lemmas: the loops of the batch query\<close>

lemma map_insert_idem: "map_insert (map_insert m k v) k v = map_insert m k v"
  by (simp add: map_insert_def split: option.splits)

lemma many_points_state:
  "idx (many_points E tol nm f p pts st) = idx st
   \<and> has_hit (many_points E tol nm f p pts st) = (has_hit st \<or> registers_hit E tol pts f)
   \<and> st_features (many_points E tol nm f p pts st) =
       (if registers_hit E tol pts f then map_insert (st_features st) (idx st) (many_result nm f)
        else st_features st)"
proof (induction pts arbitrary: p st)
  case Nil
  then show ?case by (simp add: registers_hit_def)
next
  case (Cons pt pts)
  show ?case
  proof (cases "hit_within E (fst pt) (snd pt) tol f")
    case True
    let ?hit = "\<lparr>hit_distance = distance (path_to_point_distance E (geom f) (fst pt) (snd pt)),
                  feature_id = idx st\<rparr>"
    define st1 where "st1 =
      st\<lparr>has_hit := True,
         st_features := map_insert (st_features st) (idx st) (many_result nm f),
         st_hits := (case st_hits st p of
                       None \<Rightarrow> (st_hits st)(p \<mapsto> [?hit])
                     | Some pointHits \<Rightarrow> (st_hits st)(p \<mapsto> pointHits @ [?hit]))\<rparr>"
    have step: "many_points E tol nm f p (pt # pts) st = many_points E tol nm f (Suc p) pts st1"
      using True by (simp add: Let_def hit_within_def many_result_def st1_def)
    have st1: "idx st1 = idx st" "has_hit st1"
        "st_features st1 = map_insert (st_features st) (idx st) (many_result nm f)"
      by (simp_all add: st1_def)
    have reg: "registers_hit E tol (pt # pts) f" using True by (simp add: registers_hit_def)
    show ?thesis
      unfolding step using Cons.IH [of "Suc p" st1] reg
      by (simp add: st1 map_insert_idem)
  next
    case False
    have step: "many_points E tol nm f p (pt # pts) st = many_points E tol nm f (Suc p) pts st"
      using False by (auto simp add: Let_def hit_within_def)
    have reg: "registers_hit E tol (pt # pts) f = registers_hit E tol pts f"
      using False by (simp add: registers_hit_def)
    show ?thesis
      unfolding step reg using Cons.IH [of "Suc p" st] by simp
  qed
qed

lemma many_features_state:
  assumes "\<And>k. idx st \<le> k \<Longrightarrow> st_features st k = None"
  shows "idx (many_features E tol nm points fs st) = idx st + length (filter (registers_hit E tol points) fs)
   \<and> (\<forall>k. st_features (many_features E tol nm points fs st) k =
         (if k < idx st then st_features st k
          else if k < idx st + length (filter (registers_hit E tol points) fs)
          then Some (many_result nm (filter (registers_hit E tol points) fs ! (k - idx st)))
          else None))"
  using assms
proof (induction fs arbitrary: st)
  case Nil
  then show ?case by simp
next
  case (Cons f fs)
  let ?st0 = "st\<lparr>has_hit := False\<rparr>"
  let ?st1 = "many_points E tol nm f 0 points ?st0"
  note mp = many_points_state [of E tol nm f 0 points ?st0]
  show ?case
  proof (cases "registers_hit E tol points f")
    case True
    let ?st2 = "?st1\<lparr>idx := Suc (idx ?st1)\<rparr>"
    have i2: "idx ?st2 = Suc (idx st)" using mp by simp
    have f2: "st_features ?st2 = (st_features st)(idx st \<mapsto> many_result nm f)"
      using mp True Cons.prems [of "idx st"] by (simp add: map_insert_def)
    have free: "\<And>k. idx ?st2 \<le> k \<Longrightarrow> st_features ?st2 k = None"
      using Cons.prems by (simp only: i2 f2) simp
    have step: "many_features E tol nm points (f # fs) st = many_features E tol nm points fs ?st2"
      using mp True by (simp add: Let_def)
    show ?thesis
      unfolding step
      using Cons.IH [of ?st2, OF free] True
      by (simp only: i2 f2) (auto simp add: nth_Cons' less_Suc_eq)
  next
    case False
    have i1: "idx ?st1 = idx st" and f1: "st_features ?st1 = st_features st"
      and h1: "\<not> has_hit ?st1" using mp False by simp_all
    have free: "\<And>k. idx ?st1 \<le> k \<Longrightarrow> st_features ?st1 k = None"
      using Cons.prems by (simp add: i1 f1)
    have step: "many_features E tol nm points (f # fs) st = many_features E tol nm points fs ?st1"
      using h1 by (simp add: Let_def)
    show ?thesis
      unfolding step
      using Cons.IH [of ?st1, OF free] False
      by (simp add: i1 f1)
  qed
qed


lemma mset_sort_insert: "mset (sort_insert cmp a xs) = add_mset a (mset xs)"
  by (induction xs) auto

lemma mset_std_sort: "mset (std_sort cmp xs) = mset xs"
  unfolding std_sort_def by (induction xs) (simp_all add: mset_sort_insert)

lemma hits_at_upd:
  "hits_at (m(p \<mapsto> v)) q = (if q = p then v else hits_at m q)"
  by (simp add: hits_at_def)

lemma many_points_hits:
  "hits_at (st_hits (many_points E tol nm f p pts st)) q =
     hits_at (st_hits st) q @
       (if p \<le> q \<and> q < p + length pts
           \<and> hit_within E (fst (pts ! (q - p))) (snd (pts ! (q - p))) tol f
        then [\<lparr>hit_distance = distance (path_to_point_distance E (geom f)
                                 (fst (pts ! (q - p))) (snd (pts ! (q - p)))),
               feature_id = idx st\<rparr>]
        else [])"
proof (induction pts arbitrary: p st)
  case Nil
  then show ?case by simp
next
  case (Cons pt pts)
  show ?case
  proof (cases "hit_within E (fst pt) (snd pt) tol f")
    case True
    let ?hit = "\<lparr>hit_distance = distance (path_to_point_distance E (geom f) (fst pt) (snd pt)),
                  feature_id = idx st\<rparr>"
    define st1 where "st1 =
      st\<lparr>has_hit := True,
         st_features := map_insert (st_features st) (idx st)
                          \<lparr>distance = 0, x_hit = 0, y_hit = 0, layer = nm, feature = f\<rparr>,
         st_hits := (case st_hits st p of
                       None \<Rightarrow> (st_hits st)(p \<mapsto> [?hit])
                     | Some pointHits \<Rightarrow> (st_hits st)(p \<mapsto> pointHits @ [?hit]))\<rparr>"
    have step: "many_points E tol nm f p (pt # pts) st = many_points E tol nm f (Suc p) pts st1"
      using True by (simp add: Let_def hit_within_def st1_def)
    have i1: "idx st1 = idx st" by (simp add: st1_def)
    have h1: "hits_at (st_hits st1) q = hits_at (st_hits st) q @ (if q = p then [?hit] else [])"
      by (cases "st_hits st p") (simp_all add: st1_def hits_at_def)
    show ?thesis
    proof (cases "q = p")
      case qp: True
      then show ?thesis
        unfolding step Cons.IH [of "Suc p" st1] h1 i1 using True by simp
    next
      case qp: False
      then have "(pt # pts) ! (q - p) = pts ! (q - Suc p)" if "p \<le> q"
        using that qp by (simp add: nth_Cons')
      then show ?thesis
        unfolding step Cons.IH [of "Suc p" st1] h1 i1 using qp by auto
    qed
  next
    case False
    have step: "many_points E tol nm f p (pt # pts) st = many_points E tol nm f (Suc p) pts st"
      using False by (auto simp add: Let_def hit_within_def)
    show ?thesis
    proof (cases "q = p")
      case qp: True
      then show ?thesis
        unfolding step Cons.IH [of "Suc p" st] using False by simp
    next
      case qp: False
      then have "(pt # pts) ! (q - p) = pts ! (q - Suc p)" if "p \<le> q"
        using that qp by (simp add: nth_Cons')
      then show ?thesis
        unfolding step Cons.IH [of "Suc p" st] using qp by auto
    qed
  qed
qed

lemma many_points_nonempty:
  "(\<And>q. st_hits st q \<noteq> Some []) \<Longrightarrow> st_hits (many_points E tol nm f p pts st) q \<noteq> Some []"
proof (induction pts arbitrary: p st)
  case Nil
  then show ?case by simp
next
  case (Cons pt pts)
  show ?case
  proof (cases "hit_within E (fst pt) (snd pt) tol f")
    case True
    let ?hit = "\<lparr>hit_distance = distance (path_to_point_distance E (geom f) (fst pt) (snd pt)),
                  feature_id = idx st\<rparr>"
    define st1 where "st1 =
      st\<lparr>has_hit := True,
         st_features := map_insert (st_features st) (idx st)
                          \<lparr>distance = 0, x_hit = 0, y_hit = 0, layer = nm, feature = f\<rparr>,
         st_hits := (case st_hits st p of
                       None \<Rightarrow> (st_hits st)(p \<mapsto> [?hit])
                     | Some pointHits \<Rightarrow> (st_hits st)(p \<mapsto> pointHits @ [?hit]))\<rparr>"
    have step: "many_points E tol nm f p (pt # pts) st = many_points E tol nm f (Suc p) pts st1"
      using True by (simp add: Let_def hit_within_def st1_def)
    have "\<And>q. st_hits st1 q \<noteq> Some []"
      using Cons.prems by (cases "st_hits st p") (simp_all add: st1_def)
    then show ?thesis unfolding step by (rule Cons.IH)
  next
    case False
    have step: "many_points E tol nm f p (pt # pts) st = many_points E tol nm f (Suc p) pts st"
      using False by (auto simp add: Let_def hit_within_def)
    show ?thesis unfolding step using Cons.prems by (rule Cons.IH)
  qed
qed

lemma recorded_hits_Cons:
  "recorded_hits E tol points n (f # fs) q =
     (if q < length points \<and> hit_within E (fst (points ! q)) (snd (points ! q)) tol f
      then [\<lparr>hit_distance = distance (path_to_point_distance E (geom f)
                               (fst (points ! q)) (snd (points ! q))),
             feature_id = n\<rparr>]
      else []) @ recorded_hits E tol points (Suc n) fs q"
  by (simp add: recorded_hits_def point_hits_def)

lemma many_features_hits:
  "hits_at (st_hits (many_features E tol nm points fs st)) q =
     hits_at (st_hits st) q
       @ recorded_hits E tol points (idx st) (filter (registers_hit E tol points) fs) q"
proof (induction fs arbitrary: st)
  case Nil
  then show ?case by (simp add: recorded_hits_def point_hits_def)
next
  case (Cons f fs)
  let ?st0 = "st\<lparr>has_hit := False\<rparr>"
  let ?st1 = "many_points E tol nm f 0 points ?st0"
  note mp = many_points_state [of E tol nm f 0 points ?st0]
  note mh = many_points_hits [where E = E and tol = tol and nm = nm and f = f and p = 0
                                and pts = points and st = ?st0 and q = q]
  show ?case
  proof (cases "registers_hit E tol points f")
    case True
    let ?st2 = "?st1\<lparr>idx := Suc (idx ?st1)\<rparr>"
    have step: "many_features E tol nm points (f # fs) st = many_features E tol nm points fs ?st2"
      using mp True by (simp add: Let_def)
    have i2: "idx ?st2 = Suc (idx st)" using mp by simp
    have h2: "hits_at (st_hits ?st2) q = hits_at (st_hits ?st1) q" by simp
    show ?thesis
      unfolding step Cons.IH [of ?st2] i2 h2 mh
      using True by (simp add: recorded_hits_Cons)
  next
    case False
    have h1: "\<not> has_hit ?st1" and i1: "idx ?st1 = idx st" using mp False by simp_all
    have step: "many_features E tol nm points (f # fs) st = many_features E tol nm points fs ?st1"
      using h1 by (simp add: Let_def)
    have no: "\<not> (q < length points \<and> hit_within E (fst (points ! q)) (snd (points ! q)) tol f)"
      using False by (auto simp add: registers_hit_def)
    show ?thesis
      unfolding step Cons.IH [of ?st1] i1 mh
      using False no by simp
  qed
qed

lemma many_features_nonempty:
  "(\<And>q. st_hits st q \<noteq> Some []) \<Longrightarrow> st_hits (many_features E tol nm points fs st) q \<noteq> Some []"
proof (induction fs arbitrary: st)
  case Nil
  then show ?case by simp
next
  case (Cons f fs)
  let ?st1 = "many_points E tol nm f 0 points (st\<lparr>has_hit := False\<rparr>)"
  have n1: "\<And>q. st_hits ?st1 q \<noteq> Some []"
    using Cons.prems by (intro many_points_nonempty) simp
  show ?case
  proof (cases "has_hit ?st1")
    case True
    have "st_hits (many_features E tol nm points fs (?st1\<lparr>idx := Suc (idx ?st1)\<rparr>)) q \<noteq> Some []"
      using n1 by (intro Cons.IH) simp
    with True show ?thesis by (simp add: Let_def)
  next
    case False
    have "st_hits (many_features E tol nm points fs ?st1) q \<noteq> Some []"
      using n1 by (intro Cons.IH)
    with False show ?thesis by (simp add: Let_def)
  qed
qed

lemma many_collect_hits:
  "(hits (many_collect E tol nm points fs) p = None)
     = (recorded_hits E tol points 0 (filter (registers_hit E tol points) fs) p = [])"
  "hits (many_collect E tol nm points fs) p = Some hs \<Longrightarrow>
     hs = std_sort queryManySort
            (recorded_hits E tol points 0 (filter (registers_hit E tol points) fs) p)"
proof -
  let ?st0 = "\<lparr>idx = 0, has_hit = False, st_features = Map.empty, st_hits = Map.empty\<rparr>"
  let ?fin = "many_features E tol nm points fs ?st0"
  have h: "hits_at (st_hits ?fin) p
             = recorded_hits E tol points 0 (filter (registers_hit E tol points) fs) p"
    using many_features_hits [where st = ?st0 and q = p and E = E and tol = tol and nm = nm
          and points = points and fs = fs] by (simp add: hits_at_def)
  have n: "st_hits ?fin p \<noteq> Some []"
    by (rule many_features_nonempty) simp
  show "(hits (many_collect E tol nm points fs) p = None)
     = (recorded_hits E tol points 0 (filter (registers_hit E tol points) fs) p = [])"
    using h n by (cases "st_hits ?fin p") (simp_all add: many_collect_def Let_def hits_at_def)
  show "hits (many_collect E tol nm points fs) p = Some hs \<Longrightarrow>
     hs = std_sort queryManySort
            (recorded_hits E tol points 0 (filter (registers_hit E tol points) fs) p)"
    using h by (cases "st_hits ?fin p") (auto simp add: many_collect_def Let_def hits_at_def)
qed

lemma sqrt_9: "sqrt 9 = 3"
  using real_sqrt_abs2 [of 3] by simp

lemma sqrt_16: "sqrt 16 = 4"
  using real_sqrt_abs2 [of 4] by simp


text \<open>
  C5. When the layer exists and the query points reproject, the batch query returns.
  The keys of its feature map are \<open>0, 1, ...\<close> without a gap, key \<open>k\<close> holding the
  \<open>k\<close>-th, in scan order, of the scanned features that register a hit against at least
  one query point, and no other feature is in the map. A query point has a list of hits
  exactly when some feature is within the tolerance of it; the list then holds one hit
  for each such feature, no more and no less, each with the distance of the feature to
  the point and the key the feature has in the feature map, and it is in ascending order
  of distance.
\<close>

theorem queryMany_features_and_hits:
  assumes "layer_reader d nm = Some l"
    and "reproject_query E query = Inr points"
  shows "\<exists>r. queryMany_impl E d query tolerance nm field_names = Inr r
    \<and> (\<forall>k. features r k =
          (if k < length (hit_features E tolerance points l)
           then Some (many_result (l_name l) (hit_features E tolerance points l ! k))
           else None))
    \<and> (\<forall>p. (hits r p = None)
           = (recorded_hits E tolerance points 0 (hit_features E tolerance points l) p = []))
    \<and> (\<forall>p hs. hits r p = Some hs \<longrightarrow>
          sorted_wrt (\<lambda>a b. hit_distance a \<le> hit_distance b) hs
          \<and> mset hs = mset (recorded_hits E tolerance points 0
                              (hit_features E tolerance points l) p))"
proof -
  let ?st0 = "\<lparr>idx = 0, has_hit = False, st_features = Map.empty, st_hits = Map.empty\<rparr>"
  let ?fs = "ds_features l (query_bbox points tolerance)"
  let ?r = "many_collect E tolerance (l_name l) points ?fs"
  have r: "queryMany_impl E d query tolerance nm field_names = Inr ?r"
    using assms by (simp add: queryMany_impl_def)
  have "\<And>k. idx ?st0 \<le> k \<Longrightarrow> st_features ?st0 k = None" by simp
  from many_features_state [of ?st0, OF this]
  have f: "\<forall>k. features ?r k =
          (if k < length (hit_features E tolerance points l)
           then Some (many_result (l_name l) (hit_features E tolerance points l ! k))
           else None)"
    by (simp add: many_collect_def hit_features_def Let_def)
  have n: "\<forall>p. (hits ?r p = None)
           = (recorded_hits E tolerance points 0 (hit_features E tolerance points l) p = [])"
    by (simp add: many_collect_hits(1) hit_features_def)
  have s: "\<forall>p hs. hits ?r p = Some hs \<longrightarrow>
          sorted_wrt (\<lambda>a b. hit_distance a \<le> hit_distance b) hs
          \<and> mset hs = mset (recorded_hits E tolerance points 0
                              (hit_features E tolerance points l) p)"
    by (auto dest!: many_collect_hits(2)
             simp add: hit_features_def sorted_queryManySort mset_std_sort)
  from r f n s show ?thesis by blast
qed

theorem queryMany_features_and_hits_witness:
  "features (projr (queryMany_impl planar two_points [(3, 0), (5, 0)] 2 ''pts'' [])) 0
     = Some (many_result ''pts'' \<lparr>fid = 1, geom = point (1, 0)\<rparr>)
   \<and> features (projr (queryMany_impl planar two_points [(3, 0), (5, 0)] 2 ''pts'' [])) 1
     = Some (many_result ''pts'' \<lparr>fid = 2, geom = point (2, 0)\<rparr>)
   \<and> features (projr (queryMany_impl planar two_points [(3, 0), (5, 0)] 2 ''pts'' [])) 2 = None
   \<and> hits (projr (queryMany_impl planar two_points [(3, 0), (5, 0)] 2 ''pts'' [])) 0
     = Some [\<lparr>hit_distance = 1, feature_id = 1\<rparr>, \<lparr>hit_distance = 2, feature_id = 0\<rparr>]
   \<and> hits (projr (queryMany_impl planar two_points [(3, 0), (5, 0)] 2 ''pts'' [])) 1 = None"
proof -
  let ?l = "\<lparr>l_name = ''pts'',
             l_features = [\<lparr>fid = 1, geom = point (1, 0)\<rparr>, \<lparr>fid = 2, geom = point (2, 0)\<rparr>],
             l_feature_msgs = []\<rparr>"
  let ?q = "queryMany_impl planar two_points [(3, 0), (5, 0)] 2 ''pts'' []"
  have l: "layer_reader two_points ''pts'' = Some ?l"
    by (simp add: layer_reader_def two_points_def)
  have p: "reproject_query planar [(3, 0), (5, 0)] = Inr [(3, 0), (5, 0)]"
    by (simp add: planar_def)
  have h: "hit_features planar 2 [(3, 0), (5, 0)] ?l
             = [\<lparr>fid = 1, geom = point (1, 0)\<rparr>, \<lparr>fid = 2, geom = point (2, 0)\<rparr>]"
    by (simp add: hit_features_def registers_hit_def hit_within_def ds_features_def
        query_bbox_def envelope_def planar_def p2p_point_def euclid_distance_def distance2_def)
  have r0: "recorded_hits planar 2 [(3, 0), (5, 0)] 0
              [\<lparr>fid = 1, geom = point (1, 0)\<rparr>, \<lparr>fid = 2, geom = point (2, 0)\<rparr>] 0
            = [\<lparr>hit_distance = 2, feature_id = 0\<rparr>, \<lparr>hit_distance = 1, feature_id = 1\<rparr>]"
    by (simp add: recorded_hits_def point_hits_def hit_within_def planar_def p2p_point_def
        euclid_distance_def distance2_def)
  have r1: "recorded_hits planar 2 [(3, 0), (5, 0)] 0
              [\<lparr>fid = 1, geom = point (1, 0)\<rparr>, \<lparr>fid = 2, geom = point (2, 0)\<rparr>] (Suc 0) = []"
    by (simp add: recorded_hits_def point_hits_def hit_within_def planar_def p2p_point_def
        euclid_distance_def distance2_def sqrt_9 sqrt_16)
  from queryMany_features_and_hits [OF l p, of 2 "[]"]
  obtain r where q: "?q = Inr r"
    and f: "\<And>k. features r k =
          (if k < length (hit_features planar 2 [(3, 0), (5, 0)] ?l)
           then Some (many_result ''pts'' (hit_features planar 2 [(3, 0), (5, 0)] ?l ! k))
           else None)"
    and n: "\<And>p. (hits r p = None)
           = (recorded_hits planar 2 [(3, 0), (5, 0)] 0 (hit_features planar 2 [(3, 0), (5, 0)] ?l) p = [])"
    and s: "\<And>p hs. hits r p = Some hs \<Longrightarrow>
          sorted_wrt (\<lambda>a b. hit_distance a \<le> hit_distance b) hs
          \<and> mset hs = mset (recorded_hits planar 2 [(3, 0), (5, 0)] 0
                              (hit_features planar 2 [(3, 0), (5, 0)] ?l) p)"
    by auto
  have f0: "features r 0 = Some (many_result ''pts'' \<lparr>fid = 1, geom = point (1, 0)\<rparr>)"
    and f1: "features r 1 = Some (many_result ''pts'' \<lparr>fid = 2, geom = point (2, 0)\<rparr>)"
    and f2: "features r 2 = None"
    using f [of 0] f [of 1] f [of 2] by (simp_all add: h)
  have h1: "hits r 1 = None" using n [of 1] by (simp add: h r1)
  from n [of 0] obtain hs where hs: "hits r 0 = Some hs" by (auto simp add: h r0)
  from s [OF hs] have srt: "sorted_wrt (\<lambda>a b. hit_distance a \<le> hit_distance b) hs"
    and ms: "mset hs = {#\<lparr>hit_distance = 2, feature_id = 0\<rparr>, \<lparr>hit_distance = 1, feature_id = 1\<rparr>#}"
    by (simp_all add: h r0)
  from ms have "size (mset hs) = 2" by simp
  then have "length hs = 2" by simp
  then obtain a b where ab: "hs = [a, b]"
    by (cases hs; cases "tl hs") auto
  with ms have "(a = \<lparr>hit_distance = 2, feature_id = 0\<rparr> \<and> b = \<lparr>hit_distance = 1, feature_id = 1\<rparr>)
      \<or> (a = \<lparr>hit_distance = 1, feature_id = 1\<rparr> \<and> b = \<lparr>hit_distance = 2, feature_id = 0\<rparr>)"
    by (auto simp add: add_eq_conv_ex)
  with srt ab have "hs = [\<lparr>hit_distance = 1, feature_id = 1\<rparr>, \<lparr>hit_distance = 2, feature_id = 0\<rparr>]"
    by auto
  with hs f0 f1 f2 h1 q show ?thesis by simp
qed

subsection \<open>Helper lemmas: the box of the batch query\<close>













text \<open>
  C3 as stated fails: the centre of the square lies inside a hole (it lies inside both
  nested holes), and the polygon still reports a hit at distance 0, because each ring
  only flips the inside flag.
\<close>

theorem point_in_hole_hit_counterexample:
  "4 \<le> length (nested_holes ! 0)
   \<and> ring_odd planar 5 5 (nested_holes ! 1)
   \<and> distance (p2p_polygon planar 5 5 nested_holes) = 0"
  by (simp add: nested_holes_def ring_odd_def ring_flips_def segments_def planar_def
      ray_crosses_def p2p_polygon_def p2p_new_def Let_def)

text \<open>
  C3, amended. A polygon without rings gives no hit. Otherwise the result is the hit at
  distance 0 exactly when the exterior ring has at least four points, the ray from the
  query point crosses the exterior ring an odd number of times, and the point is inside
  an even number of the interior rings that have at least four points; in every other
  case there is no hit. So a degenerate exterior ring gives no hit whatever the point,
  a point inside the exterior ring and no hole gives distance 0, and a point inside
  exactly one hole gives no hit.
\<close>

theorem p2p_polygon_even_odd:
  "p2p_polygon E x y [] = p2p_new
   \<and> p2p_polygon E x y (exterior # interior) =
       (if 4 \<le> length exterior \<and> ring_odd E x y exterior \<and> even (holes_around E x y interior)
        then p2p_new\<lparr>distance := 0\<rparr> else p2p_new)"
  by (auto simp add: p2p_polygon_def p2p_rings_interior ring_flips_odd Let_def)

theorem p2p_polygon_even_odd_witness:
  "p2p_polygon planar 5 5 [nested_holes ! 0] = p2p_new\<lparr>distance := 0\<rparr>
   \<and> p2p_polygon planar 5 5 (take 2 nested_holes) = p2p_new
   \<and> p2p_polygon planar 5 5 [[(0, 0), (10, 0), (0, 10)]] = p2p_new"
  using p2p_polygon_even_odd [of planar 5 5 "nested_holes ! 0" "[]"]
    p2p_polygon_even_odd [of planar 5 5 "nested_holes ! 0" "[nested_holes ! 1]"]
    p2p_polygon_even_odd [of planar 5 5 "[(0, 0), (10, 0), (0, 10)]" "[]"]
  by (simp add: nested_holes_def holes_around_def ring_odd_def ring_flips_def segments_def
      planar_def ray_crosses_def)


text \<open>
  C10 as stated fails: neither entry point empties the tile again after a merge that
  threw. With a merge that appends one layer before it throws, the call reports the
  error and the tile is left with that layer: not with the layer it had before the call,
  and not empty.
\<close>

theorem setData_keeps_merged_layer_counterexample:
  "setDataSync_impl append_then_throw two_points [JBuffer [1]]
     = (Some (Error ''Vector Tile Buffer contains invalid tag''),
        two_points\<lparr>layers := [\<lparr>l_name = ''roads'', l_features = [], l_feature_msgs = []\<rparr>]\<rparr>)
   \<and> setData append_then_throw two_points [JBuffer [1], JFunction]
     = (Some (Error ''Vector Tile Buffer contains invalid tag''),
        two_points\<lparr>layers := [\<lparr>l_name = ''roads'', l_features = [], l_feature_msgs = []\<rparr>]\<rparr>)
   \<and> layers (snd (setDataSync_impl append_then_throw two_points [JBuffer [1]])) \<noteq> []
   \<and> layers (snd (setData append_then_throw two_points [JBuffer [1], JFunction])) \<noteq> []"
  by (simp add: setDataSync_impl_def setData_def setData_options_def clear_and_merge_def
      append_then_throw_def clear_def arg_def two_points_def)

text \<open>
  C10, amended. For every argument list that passes a non-empty buffer and well-formed
  options, to either entry point: when the merge into the cleared tile throws, the call
  reports that error and the tile is left as the failed merge left the cleared tile.
  What the tile held before the call plays no part: the outcome is the one the call has
  on the emptied tile. When the merge threw before it appended anything, the tile is
  left without layers.
\<close>

theorem setData_not_atomic:
  assumes "arg info 0 = JBuffer buf" and "buf \<noteq> []"
    and "setData_options info = Inr (validate, upgrade)"
    and "merge (clear d) buf validate upgrade = (Some what, d')"
  shows "setDataSync_impl merge d info = (Some (Error what), d')
    \<and> setData merge d info = (Some (Error what), d')
    \<and> setData merge d info = setData merge (clear d) info
    \<and> (d' = clear d \<longrightarrow> layers (snd (setDataSync_impl merge d info)) = []
                        \<and> layers (snd (setData merge d info)) = [])"
proof -
  from assms(1) have len: "\<not> length info < 1"
    by (auto simp add: arg_def split: if_splits)
  have s: "setDataSync_impl merge d info = (Some (Error what), d')"
    using assms len
    by (simp add: setDataSync_impl_def clear_and_merge_def)
  have a: "setData merge d info = (Some (Error what), d')"
    using assms len s
    by (simp add: setData_def clear_and_merge_def)
  have "merge (clear (clear d)) buf validate upgrade = (Some what, d')"
    using assms(4) by (simp add: clear_def)
  then have c: "setData merge (clear d) info = (Some (Error what), d')"
    using assms len
    by (simp add: setData_def setDataSync_impl_def clear_and_merge_def)
  from s a c show ?thesis by (simp add: clear_def)
qed

theorem setData_not_atomic_witness:
  "setDataSync_impl refuse_all two_points [JBuffer [1]]
     = (Some (Error ''Vector Tile Buffer contains invalid tag''), two_points\<lparr>layers := []\<rparr>)
   \<and> setData refuse_all two_points [JBuffer [1], JObject [(''validate'', JBoolean True)], JFunction]
     = (Some (Error ''Vector Tile Buffer contains invalid tag''), two_points\<lparr>layers := []\<rparr>)
   \<and> layers two_points \<noteq> []"
proof -
  have m: "refuse_all (clear two_points) [1] v u
      = (Some ''Vector Tile Buffer contains invalid tag'', clear two_points)" for v u
    by (simp add: refuse_all_def)
  have "arg [JBuffer [1]] 0 = JBuffer [1]" "setData_options [JBuffer [1]] = Inr (False, False)"
    by (simp_all add: arg_def setData_options_def)
  from setData_not_atomic [where merge = refuse_all and d = two_points, OF this(1) _ this(2) m]
  have 1: "setDataSync_impl refuse_all two_points [JBuffer [1]]
     = (Some (Error ''Vector Tile Buffer contains invalid tag''), two_points\<lparr>layers := []\<rparr>)"
    by (simp add: clear_def)
  let ?info = "[JBuffer [1], JObject [(''validate'', JBoolean True)], JFunction]"
  have "arg ?info 0 = JBuffer [1]" "setData_options ?info = Inr (True, False)"
    by (simp_all add: arg_def setData_options_def)
  from setData_not_atomic [where merge = refuse_all and d = two_points, OF this(1) _ this(2) m]
  have 2: "setData refuse_all two_points ?info
     = (Some (Error ''Vector Tile Buffer contains invalid tag''), two_points\<lparr>layers := []\<rparr>)"
    by (simp add: clear_def)
  from 1 2 show ?thesis by (simp add: two_points_def)
qed


subsection \<open>Helper lemmas: the loop of the structural check\<close>

lemma info_layer_errors:
  assumes "info_layer lv st = Some st'"
  shows "errors st \<subseteq> errors st'" and "layer_names_set st \<subseteq> layer_names_set st'"
  using assms
  by (auto simp add: info_layer_def Let_def split: option.splits prod.splits if_splits)

lemma info_layer_named:
  assumes "info_layer lv st = Some st'" and "name_and_version lv = Some (nm, v)" and "nm \<noteq> []"
  shows "nm \<in> layer_names_set st'"
    and "nm \<in> layer_names_set st \<Longrightarrow> TILE_REPEATED_LAYER_NAMES \<in> errors st'"
  using assms
  by (auto simp add: info_layer_def Let_def split: option.splits prod.splits if_splits)

lemma info_loop_errors: "errors st \<subseteq> errors (fst (info_loop fs st))"
proof (induction fs st rule: info_loop.induct)
  case (2 lv fs st)
  show ?case
  proof (cases "info_layer lv st")
    case None
    then show ?thesis by simp
  next
    case (Some st')
    with 2 info_layer_errors(1) [OF Some] show ?thesis by auto
  qed
next
  case (3 skipped fs st)
  then show ?case by (auto simp add: Let_def)
qed simp_all

lemma info_loop_names:
  "\<forall>f \<in> set fs. field_read f \<Longrightarrow> layer_names_set st \<subseteq> layer_names_set (fst (info_loop fs st))"
proof (induction fs st rule: info_loop.induct)
  case (2 lv fs st)
  then obtain st' where s: "info_layer lv st = Some st'"
    by (auto simp add: info_layer_def Let_def split: option.splits prod.splits)
  with 2 info_layer_errors(2) [OF s] show ?case by auto
next
  case (3 skipped fs st)
  then show ?case by (auto simp add: Let_def)
qed simp_all

lemma info_loop_append:
  "\<forall>f \<in> set fs. field_read f \<Longrightarrow> info_loop (fs @ gs) st = info_loop gs (fst (info_loop fs st))"
proof (induction fs st rule: info_loop.induct)
  case (2 lv fs st)
  then obtain st' where s: "info_layer lv st = Some st'"
    by (auto simp add: info_layer_def Let_def split: option.splits prod.splits)
  with 2 show ?case by auto
next
  case (3 skipped fs st)
  then show ?case by (auto simp add: Let_def)
qed simp_all

lemma info_loop_repeated:
  assumes "name_and_version a = Some (nm, va)" and "name_and_version b = Some (nm, vb)"
    and "nm \<noteq> []"
    and "\<forall>f \<in> set (pre @ LAYERS a # mid @ [LAYERS b]). field_read f"
  shows "TILE_REPEATED_LAYER_NAMES \<in> errors (fst (info_loop (pre @ LAYERS a # mid @ LAYERS b # post) st))"
proof -
  let ?s1 = "fst (info_loop pre st)"
  from assms(4) obtain s2 where s2: "info_layer a ?s1 = Some s2"
    by (auto simp add: info_layer_def Let_def split: option.splits prod.splits)
  let ?s3 = "fst (info_loop mid s2)"
  from assms(4) obtain s4 where s4: "info_layer b ?s3 = Some s4"
    by (auto simp add: info_layer_def Let_def split: option.splits prod.splits)
  have "nm \<in> layer_names_set s2" using info_layer_named(1) [OF s2 assms(1,3)] .
  moreover have "layer_names_set s2 \<subseteq> layer_names_set ?s3"
    using assms(4) by (intro info_loop_names) auto
  ultimately have "nm \<in> layer_names_set ?s3" by blast
  then have e4: "TILE_REPEATED_LAYER_NAMES \<in> errors s4"
    using info_layer_named(2) [OF s4 assms(2,3)] by simp
  have "info_loop (pre @ LAYERS a # mid @ LAYERS b # post) st
        = info_loop (LAYERS a # mid @ LAYERS b # post) ?s1"
    using assms(4) by (intro info_loop_append) auto
  also have "\<dots> = info_loop (mid @ LAYERS b # post) s2" using s2 by simp
  also have "\<dots> = info_loop (LAYERS b # post) ?s3"
    using assms(4) by (intro info_loop_append) auto
  also have "\<dots> = info_loop post s4" using s4 by simp
  finally show ?thesis using e4 info_loop_errors [of s4 post] by auto
qed

text \<open>
  C7. Whenever the tile message of the buffer holds two layers of the same non-empty
  name, and the fields up to the second of them are read without an exception,
  \<open>info\<close> returns an object (it does not throw) whose \<open>errors\<close> is true and whose
  \<open>tile_errors\<close> holds \<open>TILE_REPEATED_LAYER_NAMES\<close>, whatever follows in the buffer.
\<close>

theorem info_reports_repeated_layer_names:
  assumes "reader buf = Some (pre @ LAYERS a # mid @ LAYERS b # post)"
    and "name_and_version a = Some (nm, va)" and "name_and_version b = Some (nm, vb)"
    and "nm \<noteq> []"
    and "\<forall>f \<in> set (pre @ LAYERS a # mid @ [LAYERS b]). field_read f"
  shows "\<exists>out es. VectorTile_info reader [JBuffer buf] = Inr out
           \<and> info_errors out \<and> tile_errors out = Some es \<and> TILE_REPEATED_LAYER_NAMES \<in> es"
proof -
  let ?st0 = "\<lparr>errors = {}, has_errors = False, first_layer = True, layer_names_set = {},
               version = 1, out_layers = []\<rparr>"
  from info_loop_repeated [OF assms(2-5), of post ?st0]
  show ?thesis
    using assms(1)
    by (cases "info_loop (pre @ LAYERS a # mid @ LAYERS b # post) ?st0")
       (auto simp add: VectorTile_info_def arg_def Let_def)
qed

theorem info_reports_repeated_layer_names_witness:
  "VectorTile_info (\<lambda>buf. Some [LAYERS (roads_layer 2), LAYERS (roads_layer 2)]) [JBuffer [26]]
     = Inr \<lparr>info_layers = [\<lparr>obj_name = Some ''roads'', obj_features = 1,
                             obj_counts = snd (the (is_valid_result (roads_layer 2))),
                             obj_version = 2, obj_errors = None\<rparr>,
                           \<lparr>obj_name = Some ''roads'', obj_features = 1,
                             obj_counts = snd (the (is_valid_result (roads_layer 2))),
                             obj_version = 2, obj_errors = None\<rparr>],
            info_errors = True,
            tile_errors = Some {TILE_REPEATED_LAYER_NAMES}\<rparr>"
proof -
  have "\<exists>out es. VectorTile_info (\<lambda>buf. Some [LAYERS (roads_layer 2), LAYERS (roads_layer 2)])
           [JBuffer [26]] = Inr out
           \<and> info_errors out \<and> tile_errors out = Some es \<and> TILE_REPEATED_LAYER_NAMES \<in> es"
    using info_reports_repeated_layer_names
      [where reader = "\<lambda>buf. Some [LAYERS (roads_layer 2), LAYERS (roads_layer 2)]"
         and pre = "[]" and mid = "[]" and post = "[]" and a = "roads_layer 2"
         and b = "roads_layer 2" and nm = "''roads''" and va = 2 and vb = 2 and buf = "[26]"]
    by (simp add: roads_layer_def)
  then show ?thesis
    by (simp add: VectorTile_info_def arg_def Let_def info_layer_def roads_layer_def)
qed


subsection \<open>Helper lemmas: an options object that only sets the scale to 0\<close>

lemma only_scale_sync:
  "compositeSync_options C (JObject [(''scale'', JNumber 0)]) opts
     = Inl (TypeError ''optional arg 'scale' must be greater then zero'')"
  by (simp add: compositeSync_options_def number_option_def boolean_option_def when_bad_def)

lemma only_scale_async:
  "composite_options_async C (JObject [(''scale'', JNumber 0)]) opts = Inr (opts\<lparr>scale_factor := 0\<rparr>)"
  by (simp add: composite_options_async_def number_option_def boolean_option_def when_bad_def
      max_extent_option_def image_scaling_option_def image_format_option_def)

text \<open>
  C9, at the failing input \<open>{scale: 0}\<close>. The synchronous entry point rejects it with a
  type error and leaves the target untouched. The entry point with a callback accepts
  it: its test is \<open>scale_factor < 0.0\<close>, so the compositing is started with
  \<open>scale_factor = 0\<close>.
\<close>

theorem composite_async_accepts_scale_zero:
  "compositeSync_impl C target [JArray [JVectorTile src], JObject [(''scale'', JNumber 0)]]
     = (Some (TypeError ''optional arg 'scale' must be greater then zero''), target)
   \<and> composite C target [JArray [JVectorTile src], JObject [(''scale'', JNumber 0)], JFunction]
     = (case vector_tile_composite C target [src] ((composite_defaults C)\<lparr>scale_factor := 0\<rparr>) of
          (Some what, target') \<Rightarrow> (Some (Error what), target')
        | (None, target') \<Rightarrow> (None, target'))"
  by (simp add: compositeSync_impl_def composite_def arg_def only_scale_sync only_scale_async)

theorem composite_async_accepts_scale_zero_witness:
  "composite passive_compositor two_points
     [JArray [JVectorTile two_points], JObject [(''scale'', JNumber 0)], JFunction]
     = (None, two_points)
   \<and> scale_factor ((composite_defaults passive_compositor)\<lparr>scale_factor := 0\<rparr>) = 0"
  using composite_async_accepts_scale_zero [of passive_compositor two_points two_points]
  by (simp add: passive_compositor_def)


subsection \<open>Helper lemmas: the loops of the validity report\<close>

lemma not_valid_report_Inr:
  assumes "\<And>i g. to_geojson V i g \<noteq> None"
  shows "not_valid_report V i nm g es =
     Inr (es @ map (finding_of V nm i) (filter (\<lambda>part. \<not> fst (is_valid V part)) [g]))"
  using assms [of i g]
  by (cases "is_valid V g") (auto simp add: not_valid_report_def finding_of_def)

lemma not_valid_report_each_Inr:
  assumes "\<And>i g. to_geojson V i g \<noteq> None"
  shows "not_valid_report_each V i nm gs es =
     Inr (es @ map (finding_of V nm i) (filter (\<lambda>part. \<not> fst (is_valid V part)) gs))"
proof (induction gs arbitrary: es)
  case Nil
  then show ?case by simp
next
  case (Cons g gs)
  show ?case
    by (simp only: not_valid_report_each.simps not_valid_report_Inr [OF assms] sum.case Cons.IH)
       simp
qed

lemma visitor_Inr:
  "(\<And>i g. to_geojson V i g \<noteq> None) \<Longrightarrow>
     visitor_geom_valid V i nm split g es = Inr (es @ findings_of V nm split (i, g))"
  "(\<And>i g. to_geojson V i g \<noteq> None) \<Longrightarrow>
     visitor_geom_valid_each V i nm split gs es =
       Inr (es @ concat (map (\<lambda>g. findings_of V nm split (i, g)) gs))"
proof (induction V i nm split g es and V i nm split gs es
       rule: visitor_geom_valid_visitor_geom_valid_each.induct)
  case (8 V i nm split gs es)
  then show ?case by (simp add: findings_of_def map_concat filter_concat comp_def)
next
  case (10 V i nm split g gs es)
  then show ?case by simp
qed (simp_all add: findings_of_def not_valid_report_Inr not_valid_report_each_Inr)

lemma not_valid_features_Inr:
  assumes "\<And>i g. to_geojson V i g \<noteq> None"
  shows "not_valid_features V nm split lat_lon fs es =
     Inr (es @ concat (map (findings_of V nm split)
                         (map (\<lambda>f. (fid f, if lat_lon then reproject_copy V (geom f) else geom f)) fs)))"
proof (induction fs arbitrary: es)
  case Nil
  then show ?case by simp
next
  case (Cons f fs)
  show ?case
    by (simp only: not_valid_features.simps visitor_Inr(1) [OF assms] sum.case Cons.IH) simp
qed

lemma not_valid_messages_Inr:
  assumes "\<And>i g. to_geojson V i g \<noteq> None"
  shows "not_valid_messages V nm split ms es =
     Inr (es @ concat (map (findings_of V nm split)
                         (map (\<lambda>m. (1, the (msg_geometry m)))
                            (filter (\<lambda>m. msg_geometry m \<noteq> None \<and> msg_type m \<noteq> None) ms))))"
proof (induction ms arbitrary: es)
  case Nil
  then show ?case by simp
next
  case (Cons m ms)
  show ?case
  proof (cases "msg_geometry m \<noteq> None \<and> msg_type m \<noteq> None")
    case True
    then obtain g t where "msg_geometry m = Some g" "msg_type m = Some t" by auto
    then show ?thesis
      by (simp add: visitor_Inr(1) [OF assms] Cons.IH)
  next
    case False
    then show ?thesis
      by (auto simp add: Cons.IH split: option.splits)
  qed
qed

lemma layer_not_valid_Inr:
  assumes "\<And>i g. to_geojson V i g \<noteq> None"
  shows "layer_not_valid V l es split lat_lon web_merc =
     Inr (es @ concat (map (findings_of V (l_name l) split)
                         (layer_checked V (\<lambda>m. 1) l lat_lon web_merc)))"
  by (simp add: layer_not_valid_def layer_checked_def
      not_valid_features_Inr [OF assms] not_valid_messages_Inr [OF assms])

lemma not_valid_layers_Inr:
  assumes "\<And>i g. to_geojson V i g \<noteq> None"
  shows "not_valid_layers V ls es split lat_lon web_merc =
     Inr (es @ concat (map (\<lambda>l. concat (map (findings_of V (l_name l) split)
                                          (layer_checked V (\<lambda>m. 1) l lat_lon web_merc))) ls))"
proof (induction ls arbitrary: es)
  case Nil
  then show ?case by simp
next
  case (Cons l ls)
  show ?case
    by (simp only: not_valid_layers.simps layer_not_valid_Inr [OF assms] sum.case Cons.IH) simp
qed

lemma bowtie_invalid: "polygon_check (bowtie x) = (False, ''Geometry has invalid self-intersections'')"
  by (simp add: polygon_check_def bowtie_def ring_self_crosses_def segments_def properly_cross_def ccw_def)


text \<open>
  C8 as stated fails: with \<open>split_multi_features\<close> set, a tile that holds a single
  feature, a multi-polygon of two bowties, yields two findings, one for each part,
  not one finding for the offending feature.
\<close>

theorem two_findings_for_one_feature_counterexample:
  "length (l_feature_msgs (hd (layers (shapes_tile (multi_polygon [bowtie 0, bowtie 20]))))) = 1
   \<and> length (layers (shapes_tile (multi_polygon [bowtie 0, bowtie 20]))) = 1
   \<and> length (projr (vector_tile_not_valid crossing_checks
               (shapes_tile (multi_polygon [bowtie 0, bowtie 20])) True False False)) = 2"
  by (simp add: shapes_tile_def vector_tile_not_valid_def layer_not_valid_def
      not_valid_report_def crossing_checks_def bowtie_invalid)


text \<open>
  C8, amended. Provided that writing the GeoJSON of a feature does not fail (a failure
  throws and ends the report), the report is the full list of findings, in the order of
  the layers and of the features in each layer, with one finding for every checked
  geometry that is not valid: the whole geometry of a feature, or each part of its
  multi-line or multi-polygon when \<open>split_multi_features\<close> is set. A finding carries
  the layer name, the message of the validity check, a feature id (with \<open>web_merc\<close> or
  \<open>lat_lon\<close>, the id of the feature) and the GeoJSON of the geometry inside a
  FeatureCollection string. The messages are non-empty when the validity check writes
  a non-empty message for every geometry it rejects. For a tile whose only feature is
  a bowtie polygon this is exactly one finding.
\<close>

theorem validity_report_exhaustive:
  assumes "\<And>i g. to_geojson V i g \<noteq> None"
  shows "\<exists>raw_id errs.
      vector_tile_not_valid V v split lat_lon web_merc = Inr errs
      \<and> errs = all_findings V raw_id v split lat_lon web_merc
      \<and> ((\<forall>g. \<not> fst (is_valid V g) \<longrightarrow> snd (is_valid V g) \<noteq> [])
           \<longrightarrow> (\<forall>e \<in> set errs. nv_message e \<noteq> []))"
proof -
  have "vector_tile_not_valid V v split lat_lon web_merc
          = Inr (all_findings V (\<lambda>m. 1) v split lat_lon web_merc)"
    by (simp add: vector_tile_not_valid_def all_findings_def not_valid_layers_Inr [OF assms])
  moreover have "(\<forall>g. \<not> fst (is_valid V g) \<longrightarrow> snd (is_valid V g) \<noteq> [])
      \<longrightarrow> (\<forall>e \<in> set (all_findings V (\<lambda>m. 1) v split lat_lon web_merc). nv_message e \<noteq> [])"
    by (auto simp add: all_findings_def findings_of_def finding_of_def)
  ultimately show ?thesis by blast
qed

theorem validity_report_exhaustive_witness:
  "vector_tile_not_valid crossing_checks (shapes_tile (polygon (bowtie 0))) False False False
     = Inr [\<lparr>nv_message = ''Geometry has invalid self-intersections'', nv_layer = ''shapes'',
              nv_feature_id = 1,
              nv_geojson = collection_open @ feature_stub @ collection_close\<rparr>]
   \<and> vector_tile_not_valid crossing_checks (shapes_tile (polygon (bowtie 0))) False False True
     = Inr [\<lparr>nv_message = ''Geometry has invalid self-intersections'', nv_layer = ''shapes'',
              nv_feature_id = 7,
              nv_geojson = collection_open @ feature_stub @ collection_close\<rparr>]"
proof -
  have g: "\<And>i g. to_geojson crossing_checks i g \<noteq> None"
    by (simp add: crossing_checks_def)
  have env: "envelope (polygon (bowtie 0)) \<noteq> box2d_default"
    by (simp add: envelope_def bowtie_def)
  from validity_report_exhaustive [OF g, of "shapes_tile (polygon (bowtie 0))" False False False]
  have a: "vector_tile_not_valid crossing_checks (shapes_tile (polygon (bowtie 0))) False False False
     = Inr [\<lparr>nv_message = ''Geometry has invalid self-intersections'', nv_layer = ''shapes'',
              nv_feature_id = 1,
              nv_geojson = collection_open @ feature_stub @ collection_close\<rparr>]"
    by (simp add: shapes_tile_def vector_tile_not_valid_def layer_not_valid_def
      not_valid_report_def crossing_checks_def bowtie_invalid)
  from validity_report_exhaustive [OF g, of "shapes_tile (polygon (bowtie 0))" False False True]
  have b: "vector_tile_not_valid crossing_checks (shapes_tile (polygon (bowtie 0))) False False True
     = Inr [\<lparr>nv_message = ''Geometry has invalid self-intersections'', nv_layer = ''shapes'',
              nv_feature_id = 7,
              nv_geojson = collection_open @ feature_stub @ collection_close\<rparr>]"
    using env
    by (simp add: shapes_tile_def vector_tile_not_valid_def layer_not_valid_def ds_features_all_def
      not_valid_report_def crossing_checks_def bowtie_invalid)
  from a b show ?thesis by simp
qed

end
